theory Spec2Isabelle
  imports Main
begin

section \<open>JavaScript values, errors and JSON text\<close>

text \<open>
  The program is TypeScript: at run time every value that crosses an interface (a parsed
  request, a parsed HTTP body, a parameter object) is an untyped JavaScript value. Numbers
  are modelled as integers (all amounts of the program are whole millisatoshis); objects
  are association lists in key order, with distinct keys.
\<close>

datatype js =
    JUndefined
  | JNull
  | JBool bool
  | JNum int
  | JStr string
  | JArr "js list"
  | JObj "(string \<times> js) list"

text \<open>
  The errors the code throws or meets. \<open>TypeError\<close> is a property read on \<open>null\<close> or
  \<open>undefined\<close>, or a value that cannot be converted to a string; \<open>SyntaxError\<close> a failed
  \<open>JSON.parse\<close> or \<open>response.json()\<close>; \<open>DecryptError\<close> a throwing \<open>nip04.decrypt\<close>;
  \<open>EncryptError\<close> a throwing \<open>nip04.encrypt\<close>; \<open>PublishError\<close> a rejected
  \<open>relay.publish\<close>; \<open>NetworkError\<close> a rejected \<open>fetch\<close>. The next four are the
  \<open>new Error(...)\<close> of the source. \<open>Thrown\<close> is a value a library throws that is not an
  \<open>Error\<close> object.
\<close>

datatype error =
    TypeError
  | SyntaxError
  | DecryptError
  | EncryptError string
  | PublishError string
  | NetworkError string
  | HttpError int
  | TimeoutPaymentRequest
  | TimeoutPolling int
  | UnhandledMethod string
  | Thrown js

text \<open>\<open>error instanceof Error\<close>.\<close>

fun instanceof_Error :: "error \<Rightarrow> bool" where
  "instanceof_Error (Thrown v) = False"
| "instanceof_Error e = True"

text \<open>Truthiness, as \<open>if (v)\<close>, \<open>v || d\<close> and \<open>v ? a : b\<close> test it.\<close>

fun truthy :: "js \<Rightarrow> bool" where
  "truthy JUndefined = False"
| "truthy JNull = False"
| "truthy (JBool b) = b"
| "truthy (JNum n) = (n \<noteq> 0)"
| "truthy (JStr s) = (s \<noteq> [])"
| "truthy (JArr xs) = True"
| "truthy (JObj kvs) = True"

text \<open>
  The property read \<open>v.k\<close>: it throws on \<open>null\<close> and \<open>undefined\<close>, gives the member of
  an object, and \<open>undefined\<close> for a missing member or a primitive (none of the names the
  program reads is a built-in property).
\<close>

fun getProp :: "js \<Rightarrow> string \<Rightarrow> error + js" where
  "getProp JUndefined k = Inl TypeError"
| "getProp JNull k = Inl TypeError"
| "getProp (JObj kvs) k = (case map_of kvs k of None \<Rightarrow> Inr JUndefined | Some v \<Rightarrow> Inr v)"
| "getProp v k = Inr JUndefined"

text \<open>
  A text on the wire is represented by the JSON document it denotes, or is not JSON at all
  (the empty body of a \<open>202\<close>, a garbled plaintext).
\<close>

datatype payload = Json js | NotJson string

fun JSON_parse :: "payload \<Rightarrow> error + js" where
  "JSON_parse (Json v) = Inr v"
| "JSON_parse (NotJson s) = Inl SyntaxError"

text \<open>
  \<open>JSON.stringify\<close> drops every object member whose value is \<open>undefined\<close> and writes an
  \<open>undefined\<close> array element as \<open>null\<close>; a member whose value is \<open>0\<close> or \<open>null\<close> is written.
\<close>

primrec serializable :: "js \<Rightarrow> js" where
  "serializable JUndefined = JUndefined"
| "serializable JNull = JNull"
| "serializable (JBool b) = JBool b"
| "serializable (JNum n) = JNum n"
| "serializable (JStr s) = JStr s"
| "serializable (JArr xs) =
     JArr (map (\<lambda>v. if v = JUndefined then JNull else v) (map serializable xs))"
| "serializable (JObj kvs) =
     JObj (filter (\<lambda>kv. snd kv \<noteq> JUndefined) (map (map_prod (\<lambda>k. k) serializable) kvs))"

definition JSON_stringify :: "js \<Rightarrow> payload" where
  "JSON_stringify v = Json (serializable v)"

section \<open>HTTP, the relay and the trace of effects\<close>

datatype http_method = GET | POST

record RequestInit =
  http_method :: http_method
  headers :: "(string \<times> string) list"
  body :: "payload option"

record Response =
  status :: int
  bodyText :: payload

definition ok :: "Response \<Rightarrow> bool" where
  "ok response = (200 \<le> status response \<and> status response \<le> 299)"

definition json :: "Response \<Rightarrow> error + js" where
  "json response = JSON_parse (bodyText response)"

datatype fetch_outcome = NetworkFailure string | Responded Response

record Event =
  kind :: int
  content :: string
  tags :: "string list list"
  created_at :: int
  pubkey :: string
  event_id :: string
  sig :: string

text \<open>
  Everything the program does to the outside world, in the order it does it: an HTTP
  request handed to \<open>fetch\<close>, a \<open>setTimeout\<close> delay awaited, a call of the status observer,
  an event handed to \<open>relay.publish\<close> together with the relay's verdict (\<open>True\<close> when the
  promise resolves, \<open>False\<close> when it rejects).
\<close>

datatype effect =
    Fetch string RequestInit
  | Sleep int
  | StatusUpdate js
  | Publish Event bool

type_synonym trace = "effect list"

fun is_Fetch :: "effect \<Rightarrow> bool" where
  "is_Fetch (Fetch u i) = True"
| "is_Fetch e = False"

fun is_Sleep :: "effect \<Rightarrow> bool" where
  "is_Sleep (Sleep d) = True"
| "is_Sleep e = False"

definition fetches :: "trace \<Rightarrow> nat" where
  "fetches tr = length (filter is_Fetch tr)"

definition sleeps :: "trace \<Rightarrow> nat" where
  "sleeps tr = length (filter is_Sleep tr)"

fun updates :: "trace \<Rightarrow> js list" where
  "updates [] = []"
| "updates (StatusUpdate v # tr) = v # updates tr"
| "updates (e # tr) = updates tr"

text \<open>The events handed to the relay, and those of them the relay accepted.\<close>

fun handed :: "trace \<Rightarrow> Event list" where
  "handed [] = []"
| "handed (Publish ev a # tr) = ev # handed tr"
| "handed (e # tr) = handed tr"

fun acknowledged :: "trace \<Rightarrow> Event list" where
  "acknowledged [] = []"
| "acknowledged (Publish ev a # tr) = (if a then ev # acknowledged tr else acknowledged tr)"
| "acknowledged (e # tr) = acknowledged tr"

fun gets :: "trace \<Rightarrow> nat" where
  "gets [] = 0"
| "gets (Fetch u i # tr) = (if http_method i = GET then Suc (gets tr) else gets tr)"
| "gets (e # tr) = gets tr"

text \<open>
  The collaborators outside the repository, as parameters: the payment backend behind
  \<open>fetch\<close> (its answer to the \<open>n\<close>-th request of the run, which may be a network failure),
  the identifier generator, the clock, JavaScript's rendering of a number and engine-worded
  messages, and the nostr-tools primitives. \<open>nip04.encrypt\<close> may throw, and the relay
  may reject the \<open>n\<close>-th event handed to it (\<open>Some\<close> of the rejection).
\<close>

record runtime =
  fetch :: "nat \<Rightarrow> string \<Rightarrow> RequestInit \<Rightarrow> fetch_outcome"
  uuidv4 :: "trace \<Rightarrow> string"
  Date_now :: "trace \<Rightarrow> int"
  numberToString :: "int \<Rightarrow> string"
  engineMessage :: "error \<Rightarrow> string"
  epochSeconds :: "js \<Rightarrow> js"
  js_plus :: "js \<Rightarrow> js \<Rightarrow> js"
  nip04_encrypt :: "string \<Rightarrow> string \<Rightarrow> payload \<Rightarrow> error + string"
  nip04_decrypt :: "string \<Rightarrow> string \<Rightarrow> string \<Rightarrow> payload option"
  getPublicKey :: "string \<Rightarrow> string"
  getEventHash :: "int \<Rightarrow> string \<Rightarrow> string list list \<Rightarrow> int \<Rightarrow> string \<Rightarrow> string"
  signEvent :: "string \<Rightarrow> string \<Rightarrow> string"
  relay_publish :: "nat \<Rightarrow> Event \<Rightarrow> error option"

text \<open>
  The string conversion of a template literal, \<open>`${v}`\<close>, on a value that came out of
  \<open>JSON.parse\<close>. An array is its elements joined by commas, \<open>null\<close> and \<open>undefined\<close>
  elements as empty strings. An object is \<open>[object Object]\<close>, unless it has a member
  named \<open>toString\<close>: that member is no function, \<open>valueOf\<close> gives back the object, and
  the conversion throws a \<open>TypeError\<close>.
\<close>

fun join_strings :: "(error + string) list \<Rightarrow> error + string" where
  "join_strings [] = Inr []"
| "join_strings [x] = x"
| "join_strings (x # y # ys) =
     (case x of
        Inl e \<Rightarrow> Inl e
      | Inr s \<Rightarrow> (case join_strings (y # ys) of Inl e \<Rightarrow> Inl e | Inr t \<Rightarrow> Inr (s @ '','' @ t)))"

primrec ToString :: "runtime \<Rightarrow> js \<Rightarrow> error + string" where
  "ToString rt JUndefined = Inr ''undefined''"
| "ToString rt JNull = Inr ''null''"
| "ToString rt (JBool b) = Inr (if b then ''true'' else ''false'')"
| "ToString rt (JNum n) = Inr (numberToString rt n)"
| "ToString rt (JStr s) = Inr s"
| "ToString rt (JArr xs) =
     join_strings (map (\<lambda>v. if v = JNull \<or> v = JUndefined then Inr [] else ToString rt v) xs)"
| "ToString rt (JObj kvs) =
     (if ''toString'' \<in> fst ` set kvs then Inl TypeError else Inr ''[object Object]'')"

text \<open>The \<open>message\<close> of an error: the source's own wording where the source throws it.\<close>

fun message :: "runtime \<Rightarrow> error \<Rightarrow> string" where
  "message rt (HttpError st) = ''HTTP error! status: '' @ numberToString rt st"
| "message rt TimeoutPaymentRequest = ''Timeout waiting for payment request to be generated''"
| "message rt (TimeoutPolling n) =
     ''Payment status polling timed out after '' @ numberToString rt n @ '' attempts''"
| "message rt (UnhandledMethod m) = ''Unhandled method: '' @ m"
| "message rt (EncryptError m) = m"
| "message rt (PublishError m) = m"
| "message rt e = engineMessage rt e"

section \<open>VoltagePayments: the payment operations client\<close>

record VoltageConfig =
  config_apiKey :: string
  config_organizationId :: string
  config_environmentId :: string
  config_baseUrl :: "string option"
  config_maxRetries :: "int option"
  config_retryDelay :: "int option"

record VoltagePayments =
  apiKey :: string
  organizationId :: string
  environmentId :: string
  baseUrl :: string
  maxRetries :: int
  retryDelay :: int

text \<open>The constructor: \<open>x || d\<close> takes the default for a missing, empty or zero \<open>x\<close>.\<close>

definition constructor :: "VoltageConfig \<Rightarrow> VoltagePayments" where
  "constructor config =
     \<lparr> apiKey = config_apiKey config,
       organizationId = config_organizationId config,
       environmentId = config_environmentId config,
       baseUrl = (case config_baseUrl config of
                    None \<Rightarrow> ''https://voltageapi.com/v1''
                  | Some u \<Rightarrow> if u = [] then ''https://voltageapi.com/v1'' else u),
       maxRetries = (case config_maxRetries config of
                       None \<Rightarrow> 30
                     | Some n \<Rightarrow> if n = 0 then 30 else n),
       retryDelay = (case config_retryDelay config of
                       None \<Rightarrow> 2000
                     | Some d \<Rightarrow> if d = 0 then 2000 else d) \<rparr>"

text \<open>
  \<open>fetchWithRetry\<close>. The request is the caller's options with the \<open>x-api-key\<close> header
  added. A \<open>404\<close> below the retry bound waits and calls again. Any other non-\<open>ok\<close> answer
  throws \<open>HTTP error!\<close> inside the \<open>try\<close> block, so the \<open>catch\<close> block that serves the
  rejected \<open>fetch\<close> receives it as well: below the bound it waits and calls again, at the
  bound it rethrows. The recursive calls are returned, not awaited, so their failures
  pass the \<open>catch\<close> by.
\<close>

function fetchWithRetry ::
  "VoltagePayments \<Rightarrow> runtime \<Rightarrow> string \<Rightarrow> RequestInit \<Rightarrow> int \<Rightarrow> trace \<Rightarrow> (error + Response) \<times> trace"
where
  "fetchWithRetry c rt url options retryCount tr =
     (let request = options\<lparr> headers := headers options @ [(''x-api-key'', apiKey c)] \<rparr>;
          tr1 = tr @ [Fetch url request]
      in case fetch rt (fetches tr) url request of
           Responded response \<Rightarrow>
             if status response = 404 \<and> retryCount < maxRetries c then
               fetchWithRetry c rt url options (retryCount + 1) (tr1 @ [Sleep (retryDelay c)])
             else if \<not> ok response then
               (if retryCount < maxRetries c then
                  fetchWithRetry c rt url options (retryCount + 1) (tr1 @ [Sleep (retryDelay c)])
                else (Inl (HttpError (status response)), tr1))
             else (Inr response, tr1)
         | NetworkFailure m \<Rightarrow>
             if retryCount < maxRetries c then
               fetchWithRetry c rt url options (retryCount + 1) (tr1 @ [Sleep (retryDelay c)])
             else (Inl (NetworkError m), tr1))"
  by pat_completeness auto
termination
  by (relation "measure (\<lambda>(c, rt, url, options, retryCount, tr). nat (maxRetries c - retryCount))")
     auto

declare fetchWithRetry.simps [simp del]

definition getPaymentUrl :: "VoltagePayments \<Rightarrow> string option \<Rightarrow> string" where
  "getPaymentUrl c paymentId =
     (let base = baseUrl c @ ''/organizations/'' @ organizationId c
                 @ ''/environments/'' @ environmentId c @ ''/payments''
      in case paymentId of
           None \<Rightarrow> base
         | Some p \<Rightarrow> if p = [] then base else base @ ''/'' @ p)"

definition getPayment ::
  "VoltagePayments \<Rightarrow> runtime \<Rightarrow> string \<Rightarrow> trace \<Rightarrow> (error + js) \<times> trace"
where
  "getPayment c rt paymentId tr =
     (case fetchWithRetry c rt (getPaymentUrl c (Some paymentId))
             \<lparr> http_method = GET, headers = [], body = None \<rparr> 0 tr of
        (Inl e, tr1) \<Rightarrow> (Inl e, tr1)
      | (Inr response, tr1) \<Rightarrow> (json response, tr1))"

text \<open>\<open>payment.data.k\<close>, which throws when \<open>payment\<close> or its \<open>data\<close> is missing.\<close>

definition data_prop :: "js \<Rightarrow> string \<Rightarrow> error + js" where
  "data_prop payment k =
     (case getProp payment ''data'' of
        Inl e \<Rightarrow> Inl e
      | Inr d \<Rightarrow> getProp d k)"

text \<open>The \<open>while (attempts < this.maxRetries)\<close> loop of \<open>createPaymentRequest\<close>.\<close>

function createPaymentRequest_poll ::
  "VoltagePayments \<Rightarrow> runtime \<Rightarrow> string \<Rightarrow> int \<Rightarrow> trace \<Rightarrow> (error + js) \<times> trace"
where
  "createPaymentRequest_poll c rt paymentId attempts tr =
     (if attempts < maxRetries c then
        (case getPayment c rt paymentId tr of
           (Inl e, tr1) \<Rightarrow> (Inl e, tr1)
         | (Inr payment, tr1) \<Rightarrow>
             (case data_prop payment ''payment_request'' of
                Inl e \<Rightarrow> (Inl e, tr1)
              | Inr payment_request \<Rightarrow>
                  if truthy payment_request then (Inr payment, tr1)
                  else createPaymentRequest_poll c rt paymentId (attempts + 1)
                         (tr1 @ [Sleep (retryDelay c)])))
      else (Inl TimeoutPaymentRequest, tr))"
  by pat_completeness auto
termination
  by (relation "measure (\<lambda>(c, rt, paymentId, attempts, tr). nat (maxRetries c - attempts))")
     auto

declare createPaymentRequest_poll.simps [simp del]

definition createPaymentRequest ::
  "VoltagePayments \<Rightarrow> runtime \<Rightarrow> js \<Rightarrow> string \<Rightarrow> js \<Rightarrow> js \<Rightarrow> trace \<Rightarrow> (error + js) \<times> trace"
where
  "createPaymentRequest c rt amount_msats wallet_id description max_fee_msats tr =
     (let paymentId = uuidv4 rt tr;
          url = getPaymentUrl c None
      in case fetchWithRetry c rt url
                \<lparr> http_method = POST,
                  headers = [(''Content-Type'', ''application/json'')],
                  body = Some (JSON_stringify (JObj
                    [(''id'', JStr paymentId),
                     (''amount_msats'', amount_msats),
                     (''currency'', JStr ''btc''),
                     (''description'', description),
                     (''payment_kind'', JStr ''bolt11''),
                     (''wallet_id'', JStr wallet_id),
                     (''max_fee_msats'', max_fee_msats)])) \<rparr> 0 tr of
           (Inl e, tr1) \<Rightarrow> (Inl e, tr1)
         | (Inr response, tr1) \<Rightarrow>
             if status response = 202 then createPaymentRequest_poll c rt paymentId 0 tr1
             else (json response, tr1))"

definition sendPayment ::
  "VoltagePayments \<Rightarrow> runtime \<Rightarrow> string \<Rightarrow> js \<Rightarrow> js \<Rightarrow> js \<Rightarrow> trace \<Rightarrow> (error + js) \<times> trace"
where
  "sendPayment c rt wallet_id payment_request amount_msats max_fee_msats tr =
     (let paymentId = uuidv4 rt tr;
          url = getPaymentUrl c None
      in case fetchWithRetry c rt url
                \<lparr> http_method = POST,
                  headers = [(''Content-Type'', ''application/json'')],
                  body = Some (JSON_stringify (JObj
                    [(''id'', JStr paymentId),
                     (''wallet_id'', JStr wallet_id),
                     (''currency'', JStr ''btc''),
                     (''type'', JStr ''bolt11''),
                     (''data'', JObj
                        [(''amount_msats'', amount_msats),
                         (''max_fee_msats'', max_fee_msats),
                         (''payment_request'', payment_request)])])) \<rparr> 0 tr of
           (Inl e, tr1) \<Rightarrow> (Inl e, tr1)
         | (Inr response, tr1) \<Rightarrow>
             if status response = 202 then getPayment c rt paymentId tr1
             else (json response, tr1))"

text \<open>
  \<open>pollPaymentStatus\<close>: its \<open>while\<close> loop, then the method starting it at \<open>attempts = 0\<close>.
  The observer is optional; when given it is called with \<open>payment.status\<close>.
\<close>

definition terminal :: "js \<Rightarrow> bool" where
  "terminal st = (st = JStr ''completed'' \<or> st = JStr ''failed'')"

function pollPaymentStatus_loop ::
  "VoltagePayments \<Rightarrow> runtime \<Rightarrow> string \<Rightarrow> bool \<Rightarrow> int \<Rightarrow> trace \<Rightarrow> (error + js) \<times> trace"
where
  "pollPaymentStatus_loop c rt paymentId onStatusUpdate attempts tr =
     (if attempts < maxRetries c then
        (case getPayment c rt paymentId tr of
           (Inl e, tr1) \<Rightarrow> (Inl e, tr1)
         | (Inr payment, tr1) \<Rightarrow>
             (case getProp payment ''status'' of
                Inl e \<Rightarrow> (Inl e, tr1)
              | Inr st \<Rightarrow>
                  (let tr2 = (if onStatusUpdate then tr1 @ [StatusUpdate st] else tr1)
                   in if terminal st then (Inr payment, tr2)
                      else pollPaymentStatus_loop c rt paymentId onStatusUpdate (attempts + 1)
                             (tr2 @ [Sleep (retryDelay c)]))))
      else (Inl (TimeoutPolling (maxRetries c)), tr))"
  by pat_completeness auto
termination
  by (relation "measure (\<lambda>(c, rt, paymentId, onStatusUpdate, attempts, tr). nat (maxRetries c - attempts))")
     auto

declare pollPaymentStatus_loop.simps [simp del]

definition pollPaymentStatus ::
  "VoltagePayments \<Rightarrow> runtime \<Rightarrow> string \<Rightarrow> bool \<Rightarrow> trace \<Rightarrow> (error + js) \<times> trace"
where
  "pollPaymentStatus c rt paymentId onStatusUpdate tr =
     pollPaymentStatus_loop c rt paymentId onStatusUpdate 0 tr"

section \<open>NWCService: the wallet-connect gateway\<close>

datatype NWCErrorCode =
    RATE_LIMITED
  | NOT_IMPLEMENTED
  | INSUFFICIENT_BALANCE
  | QUOTA_EXCEEDED
  | RESTRICTED
  | UNAUTHORIZED
  | INTERNAL
  | OTHER
  | PAYMENT_FAILED
  | NOT_FOUND

fun code_string :: "NWCErrorCode \<Rightarrow> string" where
  "code_string RATE_LIMITED = ''RATE_LIMITED''"
| "code_string NOT_IMPLEMENTED = ''NOT_IMPLEMENTED''"
| "code_string INSUFFICIENT_BALANCE = ''INSUFFICIENT_BALANCE''"
| "code_string QUOTA_EXCEEDED = ''QUOTA_EXCEEDED''"
| "code_string RESTRICTED = ''RESTRICTED''"
| "code_string UNAUTHORIZED = ''UNAUTHORIZED''"
| "code_string INTERNAL = ''INTERNAL''"
| "code_string OTHER = ''OTHER''"
| "code_string PAYMENT_FAILED = ''PAYMENT_FAILED''"
| "code_string NOT_FOUND = ''NOT_FOUND''"

definition INFO :: int where "INFO = 13194"
definition REQUEST :: int where "REQUEST = 23194"
definition RESPONSE :: int where "RESPONSE = 23195"
definition NOTIFICATION :: int where "NOTIFICATION = 23196"

definition SUPPORTED_METHODS :: "string list" where
  "SUPPORTED_METHODS = [''pay_invoice'', ''make_invoice'', ''get_balance'', ''get_info'']"

definition SUPPORTED_NOTIFICATIONS :: "string list" where
  "SUPPORTED_NOTIFICATIONS = [''payment_received'', ''payment_sent'']"

text \<open>\<open>xs.includes(v)\<close> and \<open>xs.join(sep)\<close> on an array of strings.\<close>

definition array_includes :: "string list \<Rightarrow> js \<Rightarrow> bool" where
  "array_includes xs v = (v \<in> set (map JStr xs))"

fun join :: "string list \<Rightarrow> string \<Rightarrow> string" where
  "join [] sep = []"
| "join [x] sep = x"
| "join (x # y # ys) sep = x @ sep @ join (y # ys) sep"

record NWCConfig =
  relayUrl :: string
  config_pubkey :: string
  secret :: string
  walletId :: string

record NWCService =
  config :: NWCConfig
  voltage :: VoltagePayments
  relay :: "string option"

text \<open>
  \<open>createSignedEvent\<close> of the utilities. nostr-tools' \<open>finalizeEvent\<close> keeps the kind,
  content, tags and time of the template and fills in the public key, the identifier
  and the signature.
\<close>

definition createSignedEvent ::
  "runtime \<Rightarrow> int \<Rightarrow> string \<Rightarrow> string list list \<Rightarrow> string \<Rightarrow> trace \<Rightarrow> Event"
where
  "createSignedEvent rt kind' content' tags' privateKey tr =
     (let created = Date_now rt tr div 1000;
          pk = getPublicKey rt privateKey;
          h = getEventHash rt kind' content' tags' created pk
      in \<lparr> kind = kind', content = content', tags = tags', created_at = created,
           pubkey = pk, event_id = h, sig = signEvent rt h privateKey \<rparr>)"

text \<open>
  \<open>if (this.relay) await this.relay.publish(event)\<close>: the event is handed to the relay,
  and the awaited promise resolves or rejects as the relay decides.
\<close>

definition publish :: "NWCService \<Rightarrow> runtime \<Rightarrow> Event \<Rightarrow> trace \<Rightarrow> (error + unit) \<times> trace" where
  "publish g rt event tr =
     (case relay g of
        None \<Rightarrow> (Inr (), tr)
      | Some r \<Rightarrow>
          (case relay_publish rt (length (handed tr)) event of
             None \<Rightarrow> (Inr (), tr @ [Publish event True])
           | Some e \<Rightarrow> (Inl e, tr @ [Publish event False])))"

text \<open>
  \<open>sendResponse\<close> and \<open>sendError\<close>: build the envelope, encrypt it to the sender, sign the
  event, publish it. A throwing \<open>nip04.encrypt\<close> and a rejected \<open>relay.publish\<close> leave
  the function as its error.
\<close>

definition sendResponse ::
  "NWCService \<Rightarrow> runtime \<Rightarrow> Event \<Rightarrow> js \<Rightarrow> js \<Rightarrow> trace \<Rightarrow> (error + unit) \<times> trace"
where
  "sendResponse g rt requestEvent method result tr =
     (let response = JObj [(''result_type'', method), (''error'', JNull), (''result'', result)]
      in case nip04_encrypt rt (secret (config g)) (pubkey requestEvent)
                (JSON_stringify response) of
           Inl e \<Rightarrow> (Inl e, tr)
         | Inr encrypted \<Rightarrow>
             publish g rt
               (createSignedEvent rt RESPONSE encrypted
                  [[''p'', pubkey requestEvent], [''e'', event_id requestEvent]]
                  (secret (config g)) tr) tr)"

definition sendError ::
  "NWCService \<Rightarrow> runtime \<Rightarrow> Event \<Rightarrow> NWCErrorCode \<Rightarrow> string \<Rightarrow> trace \<Rightarrow> (error + unit) \<times> trace"
where
  "sendError g rt requestEvent code msg tr =
     (let response = JObj [(''result_type'', JStr ''error''),
                           (''error'', JObj [(''code'', JStr (code_string code)),
                                             (''message'', JStr msg)]),
                           (''result'', JNull)]
      in case nip04_encrypt rt (secret (config g)) (pubkey requestEvent)
                (JSON_stringify response) of
           Inl e \<Rightarrow> (Inl e, tr)
         | Inr encrypted \<Rightarrow>
             publish g rt
               (createSignedEvent rt RESPONSE encrypted
                  [[''p'', pubkey requestEvent], [''e'', event_id requestEvent]]
                  (secret (config g)) tr) tr)"

text \<open>
  \<open>handlePayInvoice\<close>: one \<open>sendPayment\<close> with \<open>params.amount || 0\<close>, then the result is
  read off the record that call returned.
\<close>

definition handlePayInvoice ::
  "NWCService \<Rightarrow> runtime \<Rightarrow> js \<Rightarrow> trace \<Rightarrow> (error + js) \<times> trace"
where
  "handlePayInvoice g rt params tr =
     (case getProp params ''invoice'' of
        Inl e \<Rightarrow> (Inl e, tr)
      | Inr invoice \<Rightarrow>
     (case getProp params ''amount'' of
        Inl e \<Rightarrow> (Inl e, tr)
      | Inr amount \<Rightarrow>
     (case sendPayment (voltage g) rt (walletId (config g)) invoice
             (if truthy amount then amount else JNum 0) JUndefined tr of
        (Inl e, tr1) \<Rightarrow> (Inl e, tr1)
      | (Inr payment, tr1) \<Rightarrow>
     (case data_prop payment ''payment_request'' of
        Inl e \<Rightarrow> (Inl e, tr1)
      | Inr preimage \<Rightarrow>
     (case data_prop payment ''amount_msats'' of
        Inl e \<Rightarrow> (Inl e, tr1)
      | Inr fees_paid \<Rightarrow>
          (Inr (JObj [(''preimage'', preimage), (''fees_paid'', fees_paid)]), tr1))))))"

definition handleMakeInvoice ::
  "NWCService \<Rightarrow> runtime \<Rightarrow> js \<Rightarrow> trace \<Rightarrow> (error + js) \<times> trace"
where
  "handleMakeInvoice g rt params tr =
     (case getProp params ''amount'' of
        Inl e \<Rightarrow> (Inl e, tr)
      | Inr amount \<Rightarrow>
     (case getProp params ''description'' of
        Inl e \<Rightarrow> (Inl e, tr)
      | Inr description \<Rightarrow>
     (case createPaymentRequest (voltage g) rt amount (walletId (config g)) description
             JUndefined tr of
        (Inl e, tr1) \<Rightarrow> (Inl e, tr1)
      | (Inr payment, tr1) \<Rightarrow>
     (case data_prop payment ''payment_request'' of
        Inl e \<Rightarrow> (Inl e, tr1)
      | Inr invoice \<Rightarrow>
     (case getProp params ''description_hash'' of
        Inl e \<Rightarrow> (Inl e, tr1)
      | Inr description_hash \<Rightarrow>
     (case getProp payment ''id'' of
        Inl e \<Rightarrow> (Inl e, tr1)
      | Inr payment_id \<Rightarrow>
     (case getProp payment ''created_at'' of
        Inl e \<Rightarrow> (Inl e, tr1)
      | Inr payment_created_at \<Rightarrow>
     (case getProp params ''expiry'' of
        Inl e \<Rightarrow> (Inl e, tr1)
      | Inr expiry \<Rightarrow>
          (Inr (JObj
             [(''type'', JStr ''incoming''),
              (''invoice'', invoice),
              (''description'', description),
              (''description_hash'', description_hash),
              (''payment_hash'', payment_id),
              (''amount'', amount),
              (''created_at'', epochSeconds rt payment_created_at),
              (''expires_at'',
                 if truthy expiry then js_plus rt (epochSeconds rt payment_created_at) expiry
                 else JUndefined),
              (''metadata'', JObj [])]), tr1)))))))))"

definition handleGetBalance ::
  "NWCService \<Rightarrow> runtime \<Rightarrow> js \<Rightarrow> trace \<Rightarrow> (error + js) \<times> trace"
where
  "handleGetBalance g rt params tr = (Inr (JObj [(''balance'', JNum 0)]), tr)"

definition handleGetInfo ::
  "NWCService \<Rightarrow> runtime \<Rightarrow> js \<Rightarrow> trace \<Rightarrow> (error + js) \<times> trace"
where
  "handleGetInfo g rt params tr =
     (Inr (JObj
        [(''alias'', JStr ''Voltage Pay NWC''),
         (''color'', JStr ''#ff9500''),
         (''pubkey'', JStr (config_pubkey (config g))),
         (''network'', JStr ''mainnet''),
         (''methods'', JArr (map JStr SUPPORTED_METHODS)),
         (''notifications'', JArr (map JStr SUPPORTED_NOTIFICATIONS))]), tr)"

text \<open>
  The \<open>switch (request.method)\<close> of \<open>handleRequest\<close>; its \<open>default\<close> branch throws
  \<open>Unhandled method\<close> with the method converted to a string.
\<close>

definition dispatch ::
  "NWCService \<Rightarrow> runtime \<Rightarrow> js \<Rightarrow> js \<Rightarrow> trace \<Rightarrow> (error + js) \<times> trace"
where
  "dispatch g rt method params tr =
     (if method = JStr ''pay_invoice'' then handlePayInvoice g rt params tr
      else if method = JStr ''make_invoice'' then handleMakeInvoice g rt params tr
      else if method = JStr ''get_balance'' then handleGetBalance g rt params tr
      else if method = JStr ''get_info'' then handleGetInfo g rt params tr
      else (case ToString rt method of
              Inl e \<Rightarrow> (Inl e, tr)
            | Inr m \<Rightarrow> (Inl (UnhandledMethod m), tr)))"

text \<open>
  The \<open>catch\<close> block of \<open>handleRequest\<close>: the error is answered with \<open>INTERNAL\<close> and its
  message, or \<open>Unknown error occurred\<close> when it is no \<open>Error\<close> object. The \<open>sendError\<close>
  is awaited inside the \<open>catch\<close>, so its own failure leaves \<open>handleRequest\<close>.
\<close>

definition handleRequest_catch ::
  "NWCService \<Rightarrow> runtime \<Rightarrow> Event \<Rightarrow> error \<Rightarrow> trace \<Rightarrow> (error + unit) \<times> trace"
where
  "handleRequest_catch g rt event e tr =
     (if instanceof_Error e then sendError g rt event INTERNAL (message rt e) tr
      else sendError g rt event INTERNAL ''Unknown error occurred'' tr)"

text \<open>
  \<open>handleRequest\<close>. Reading \<open>request.method\<close>, building \<open>Method ... not supported\<close> and
  the \<open>sendError\<close> for an unsupported method all happen before the \<open>try\<close>: what they
  throw leaves the function. Inside the \<open>try\<close> are the read of \<open>request.params\<close>, the
  handler and the awaited \<open>sendResponse\<close>: what any of them throws, a failed
  \<open>sendResponse\<close> included, goes to the \<open>catch\<close> block.
\<close>

definition handleRequest ::
  "NWCService \<Rightarrow> runtime \<Rightarrow> Event \<Rightarrow> js \<Rightarrow> trace \<Rightarrow> (error + unit) \<times> trace"
where
  "handleRequest g rt event request tr =
     (case getProp request ''method'' of
        Inl e \<Rightarrow> (Inl e, tr)
      | Inr method \<Rightarrow>
          if \<not> array_includes SUPPORTED_METHODS method then
            (case ToString rt method of
               Inl e \<Rightarrow> (Inl e, tr)
             | Inr m \<Rightarrow>
                 sendError g rt event NOT_IMPLEMENTED (''Method '' @ m @ '' not supported'') tr)
          else
            (case getProp request ''params'' of
               Inl e \<Rightarrow> handleRequest_catch g rt event e tr
             | Inr params \<Rightarrow>
                 (case dispatch g rt method params tr of
                    (Inl e, tr1) \<Rightarrow> handleRequest_catch g rt event e tr1
                  | (Inr result, tr1) \<Rightarrow>
                      (case sendResponse g rt event method result tr1 of
                         (Inl e, tr2) \<Rightarrow> handleRequest_catch g rt event e tr2
                       | (Inr u, tr2) \<Rightarrow> (Inr (), tr2)))))"

text \<open>
  The \<open>onevent\<close> handler that \<open>init\<close> installs: decrypt, parse, handle; whatever any of
  the three throws is answered with \<open>INTERNAL\<close>. When that last \<open>sendError\<close> fails, the
  promise of the handler rejects.
\<close>

definition onevent :: "NWCService \<Rightarrow> runtime \<Rightarrow> Event \<Rightarrow> trace \<Rightarrow> (error + unit) \<times> trace" where
  "onevent g rt event tr =
     (case nip04_decrypt rt (secret (config g)) (pubkey event) (content event) of
        None \<Rightarrow> sendError g rt event INTERNAL ''Internal error processing request'' tr
      | Some decrypted \<Rightarrow>
          (case JSON_parse decrypted of
             Inl e \<Rightarrow> sendError g rt event INTERNAL ''Internal error processing request'' tr
           | Inr request \<Rightarrow>
               (case handleRequest g rt event request tr of
                  (Inl e, tr1) \<Rightarrow>
                    sendError g rt event INTERNAL ''Internal error processing request'' tr1
                | (Inr u, tr1) \<Rightarrow> (Inr (), tr1))))"

definition publishInfoEvent :: "NWCService \<Rightarrow> runtime \<Rightarrow> trace \<Rightarrow> (error + unit) \<times> trace" where
  "publishInfoEvent g rt tr =
     publish g rt (createSignedEvent rt INFO (join SUPPORTED_METHODS '' '')
                     [[''notifications'', join SUPPORTED_NOTIFICATIONS '' '']]
                     (secret (config g)) tr) tr"

text \<open>
  \<open>init\<close> connects to the relay, subscribes \<open>onevent\<close> and publishes the info event: the
  service as it is from then on, and the outcome of the publishing. \<open>serve\<close> is the
  subscription delivering inbound events one after the other; nobody catches the rejected
  promise of a handler, and such an unhandled rejection ends the process, so \<open>serve\<close>
  stops there.
\<close>

definition init :: "NWCService \<Rightarrow> runtime \<Rightarrow> trace \<Rightarrow> NWCService \<times> (error + unit) \<times> trace" where
  "init g rt tr =
     (let g' = g\<lparr> relay := Some (relayUrl (config g)) \<rparr>
      in (g', publishInfoEvent g' rt tr))"

fun serve :: "NWCService \<Rightarrow> runtime \<Rightarrow> Event list \<Rightarrow> trace \<Rightarrow> (error + unit) \<times> trace" where
  "serve g rt [] tr = (Inr (), tr)"
| "serve g rt (event # events) tr =
     (case onevent g rt event tr of
        (Inl e, tr1) \<Rightarrow> (Inl e, tr1)
      | (Inr u, tr1) \<Rightarrow> serve g rt events tr1)"

section \<open>Backends and records for stating the scenarios\<close>

text \<open>
  The options \<open>getPayment\<close> hands to \<open>fetch\<close>, and a backend that answers the requests
  number \<open>n\<close>, \<open>n + 1\<close>, ... of the run, when they are this fetch by id, with \<open>200\<close> and
  the given records in turn.
\<close>

definition fetchById :: "VoltagePayments \<Rightarrow> RequestInit" where
  "fetchById c = \<lparr> http_method = GET, headers = [(''x-api-key'', apiKey c)], body = None \<rparr>"


text \<open>The status of a record; a record that can be read and is not in a terminal state.\<close>

definition status_of :: "js \<Rightarrow> js" where
  "status_of payment = (case getProp payment ''status'' of Inr st \<Rightarrow> st | Inl e \<Rightarrow> JUndefined)"


definition finished :: "js \<Rightarrow> bool" where
  "finished payment =
     (case getProp payment ''status'' of Inr st \<Rightarrow> terminal st | Inl e \<Rightarrow> False)"

text \<open>A record whose invoice text is there; a record that can be read and has none yet.\<close>

definition has_invoice :: "js \<Rightarrow> bool" where
  "has_invoice payment =
     (case data_prop payment ''payment_request'' of Inr v \<Rightarrow> truthy v | Inl e \<Rightarrow> False)"



text \<open>The two envelopes a response event carries.\<close>

definition is_result_envelope :: "js \<Rightarrow> bool" where
  "is_result_envelope doc =
     (getProp doc ''error'' = Inr JNull
      \<and> (case getProp doc ''result'' of Inr (JObj kvs) \<Rightarrow> True | _ \<Rightarrow> False))"

definition is_error_envelope :: "js \<Rightarrow> bool" where
  "is_error_envelope doc =
     (getProp doc ''result'' = Inr JNull
      \<and> (case getProp doc ''error'' of Inr (JObj kvs) \<Rightarrow> True | _ \<Rightarrow> False))"

text \<open>
  An event that answers a request event: a response event tagged with the sender's public
  key and the identifier of the request event, its content the encryption of \<open>doc\<close> to
  the sender.
\<close>

definition response_to :: "runtime \<Rightarrow> NWCService \<Rightarrow> Event \<Rightarrow> Event \<Rightarrow> js \<Rightarrow> bool" where
  "response_to rt g event response doc =
     (kind response = RESPONSE
      \<and> tags response = [[''p'', pubkey event], [''e'', event_id event]]
      \<and> nip04_encrypt rt (secret (config g)) (pubkey event) (Json doc)
          = Inr (content response))"

definition error_code :: "js \<Rightarrow> js" where
  "error_code doc =
     (case getProp doc ''error'' of
        Inr e \<Rightarrow> (case getProp e ''code'' of Inr v \<Rightarrow> v | Inl x \<Rightarrow> JUndefined)
      | Inl x \<Rightarrow> JUndefined)"

definition error_message :: "js \<Rightarrow> js" where
  "error_message doc =
     (case getProp doc ''error'' of
        Inr e \<Rightarrow> (case getProp e ''message'' of Inr v \<Rightarrow> v | Inl x \<Rightarrow> JUndefined)
      | Inl x \<Rightarrow> JUndefined)"

text \<open>
  What the effects of handling one inbound event may hand to the relay: at most \<open>n\<close>
  events, each a response event tagged for the sender and the inbound event, of which the
  relay accepted one when the handling resolved and none when it did not.
\<close>

definition answered :: "nat \<Rightarrow> Event \<Rightarrow> bool \<Rightarrow> trace \<Rightarrow> bool" where
  "answered n event resolved evs =
     (length (handed evs) \<le> n
      \<and> (\<forall>ev\<in>set (handed evs).
            kind ev = RESPONSE \<and> tags ev = [[''p'', pubkey event], [''e'', event_id event]])
      \<and> length (acknowledged evs) = (if resolved then 1 else 0))"

text \<open>
  A concrete runtime for running the code: the backend is a script of answers by request
  number, the inbox maps the content of an inbound event to its plaintext, numbers are
  rendered in decimal, the ciphertext tells the kind of envelope, and the relay accepts
  every event.
\<close>

fun decimal_nat :: "nat \<Rightarrow> string" where
  "decimal_nat n =
     (if n < 10 then [''0123456789'' ! n]
      else decimal_nat (n div 10) @ [''0123456789'' ! (n mod 10)])"

declare decimal_nat.simps [simp del]

definition decimal :: "int \<Rightarrow> string" where
  "decimal i = (if i < 0 then ''-'' @ decimal_nat (nat (- i)) else decimal_nat (nat i))"

definition demo_encrypt :: "payload \<Rightarrow> string" where
  "demo_encrypt plaintext =
     (case plaintext of
        NotJson s \<Rightarrow> ''other''
      | Json doc \<Rightarrow>
          if is_result_envelope doc then ''result''
          else if is_error_envelope doc then
            (case error_code doc of JStr c \<Rightarrow> ''error '' @ c | _ \<Rightarrow> ''error'')
          else ''other'')"

definition demo_runtime :: "(nat \<Rightarrow> fetch_outcome) \<Rightarrow> (string \<Rightarrow> payload option) \<Rightarrow> runtime" where
  "demo_runtime backend inbox =
     \<lparr> fetch = (\<lambda>n url request. backend n),
       uuidv4 = (\<lambda>tr. ''68d00852-8dd8-4c71-94d2-91c84695da78''),
       Date_now = (\<lambda>tr. 1741968491692),
       numberToString = decimal,
       engineMessage = (\<lambda>e. ''fetch failed''),
       epochSeconds = (\<lambda>v. JNum 1741968491),
       js_plus = (\<lambda>a b. case a of
                    JNum x \<Rightarrow> (case b of JNum y \<Rightarrow> JNum (x + y) | _ \<Rightarrow> JUndefined)
                  | _ \<Rightarrow> JUndefined),
       nip04_encrypt = (\<lambda>sk pk plaintext. Inr (demo_encrypt plaintext)),
       nip04_decrypt = (\<lambda>sk pk ciphertext. inbox ciphertext),
       getPublicKey = (\<lambda>sk. ''service-pubkey''),
       getEventHash = (\<lambda>k c t ca pk. ''response-id''),
       signEvent = (\<lambda>h sk. ''signature''),
       relay_publish = (\<lambda>n ev. None) \<rparr>"

text \<open>
  The same runtime with a relay that follows a script of verdicts, and an inbox in which
  every content decrypts to the given request.
\<close>

definition scripted_relay :: "error option list \<Rightarrow> runtime \<Rightarrow> runtime" where
  "scripted_relay verdicts rt =
     rt\<lparr> relay_publish := (\<lambda>n ev. if n < length verdicts then verdicts ! n else None) \<rparr>"

definition inbox_of :: "js \<Rightarrow> string \<Rightarrow> payload option" where
  "inbox_of request ciphertext = Some (Json request)"

definition undecryptable :: "string \<Rightarrow> payload option" where
  "undecryptable ciphertext = None"

definition scripted :: "fetch_outcome list \<Rightarrow> nat \<Rightarrow> fetch_outcome" where
  "scripted outcomes n =
     (if n < length outcomes then outcomes ! n else NetworkFailure ''connection refused'')"

definition demo_client :: VoltagePayments where
  "demo_client = constructor
     \<lparr> config_apiKey = ''key'', config_organizationId = ''org'', config_environmentId = ''env'',
       config_baseUrl = None, config_maxRetries = Some 3, config_retryDelay = None \<rparr>"

definition demo_service :: NWCService where
  "demo_service =
     \<lparr> config = \<lparr> relayUrl = ''wss://relay.damus.io'', config_pubkey = ''service-pubkey'',
                  secret = ''service-secret'', walletId = ''w1'' \<rparr>,
       voltage = demo_client,
       relay = None \<rparr>"

definition demo_event :: "string \<Rightarrow> Event" where
  "demo_event ciphertext =
     \<lparr> kind = REQUEST, content = ciphertext, tags = [[''p'', ''service-pubkey'']],
       created_at = 1741968490, pubkey = ''client-pubkey'', event_id = ''request-id'',
       sig = ''client-signature'' \<rparr>"

definition record_with :: "string \<Rightarrow> js \<Rightarrow> js" where
  "record_with st payment_request =
     JObj [(''id'', JStr ''68d00852-8dd8-4c71-94d2-91c84695da78''),
           (''status'', JStr st),
           (''data'', JObj [(''amount_msats'', JNum 10000),
                            (''payment_request'', payment_request)])]"

section \<open>Traces of the client operations\<close>

lemma handed_append: "handed (a @ b) = handed a @ handed b"
  by (induction a rule: handed.induct) simp_all

lemma acknowledged_append: "acknowledged (a @ b) = acknowledged a @ acknowledged b"
  by (induction a rule: acknowledged.induct) simp_all

lemma acknowledged_none: "handed evs = [] \<Longrightarrow> acknowledged evs = []"
  by (induction evs rule: handed.induct) simp_all

lemma updates_append: "updates (a @ b) = updates a @ updates b"
  by (induction a rule: updates.induct) simp_all

lemma gets_append: "gets (a @ b) = gets a + gets b"
  by (induction a rule: gets.induct) simp_all

lemma fetches_append: "fetches (a @ b) = fetches a + fetches b"
  by (simp add: fetches_def)

lemma sleeps_append: "sleeps (a @ b) = sleeps a + sleeps b"
  by (simp add: sleeps_def)

lemma fetches_simps:
  "fetches [] = 0" "fetches (Fetch u i # tr) = Suc (fetches tr)" "fetches (Sleep d # tr) = fetches tr"
  "fetches (StatusUpdate v # tr) = fetches tr" "fetches (Publish ev a # tr) = fetches tr"
  by (simp_all add: fetches_def)

lemma sleeps_simps:
  "sleeps [] = 0" "sleeps (Fetch u i # tr) = sleeps tr" "sleeps (Sleep d # tr) = Suc (sleeps tr)"
  "sleeps (StatusUpdate v # tr) = sleeps tr" "sleeps (Publish ev a # tr) = sleeps tr"
  by (simp_all add: sleeps_def)

lemmas trace_simps = handed_append acknowledged_append updates_append gets_append fetches_append sleeps_append
  fetches_simps sleeps_simps

lemma ok_not_404: "ok r \<Longrightarrow> status r \<noteq> 404"
  by (simp add: ok_def)

lemma fetchWithRetry_ok:
  assumes "fetch rt (fetches tr) url (options\<lparr>headers := headers options @ [(''x-api-key'', apiKey c)]\<rparr>) = Responded r"
    and "ok r"
  shows "fetchWithRetry c rt url options retryCount tr =
           (Inr r, tr @ [Fetch url (options\<lparr>headers := headers options @ [(''x-api-key'', apiKey c)]\<rparr>)])"
  using assms ok_not_404 [OF assms(2)]
  by (subst fetchWithRetry.simps) (simp add: Let_def)

lemma fetchWithRetry_retry:
  assumes "\<forall>r. fetch rt (fetches tr) url (options\<lparr>headers := headers options @ [(''x-api-key'', apiKey c)]\<rparr>) = Responded r \<longrightarrow> \<not> ok r"
    and "retryCount < maxRetries c"
  shows "fetchWithRetry c rt url options retryCount tr =
           fetchWithRetry c rt url options (retryCount + 1)
             (tr @ [Fetch url (options\<lparr>headers := headers options @ [(''x-api-key'', apiKey c)]\<rparr>),
                    Sleep (retryDelay c)])"
  using assms
  by (subst fetchWithRetry.simps) (simp add: Let_def split: fetch_outcome.splits)

lemma fetchWithRetry_fail:
  assumes "\<forall>r. fetch rt (fetches tr) url (options\<lparr>headers := headers options @ [(''x-api-key'', apiKey c)]\<rparr>) = Responded r \<longrightarrow> \<not> ok r"
    and "\<not> retryCount < maxRetries c"
  shows "\<exists>e. fetchWithRetry c rt url options retryCount tr =
           (Inl e, tr @ [Fetch url (options\<lparr>headers := headers options @ [(''x-api-key'', apiKey c)]\<rparr>)])"
  using assms
  by (subst fetchWithRetry.simps) (simp add: Let_def split: fetch_outcome.splits)


lemma fetchWithRetry_trace:
  "\<exists>evs. snd (fetchWithRetry c rt url options retryCount tr) = tr @ evs
         \<and> handed evs = [] \<and> updates evs = []
         \<and> 1 \<le> fetches evs \<and> fetches evs \<le> nat (maxRetries c - retryCount) + 1
         \<and> sleeps evs \<le> nat (maxRetries c - retryCount)
         \<and> gets evs = (if http_method options = GET then fetches evs else 0)"
proof (induction "nat (maxRetries c - retryCount)" arbitrary: retryCount tr)
  case 0
  define req where "req = options\<lparr>headers := headers options @ [(''x-api-key'', apiKey c)]\<rparr>"
  have m: "http_method req = http_method options" by (simp add: req_def)
  from 0 have stop: "\<not> retryCount < maxRetries c" by simp
  show ?case
  proof (cases "\<exists>r. fetch rt (fetches tr) url req = Responded r \<and> ok r")
    case True
    then obtain r where "fetch rt (fetches tr) url req = Responded r" "ok r" by blast
    then have "fetchWithRetry c rt url options retryCount tr = (Inr r, tr @ [Fetch url req])"
      unfolding req_def by (rule fetchWithRetry_ok)
    then show ?thesis using m by (intro exI [of _ "[Fetch url req]"]) (simp add: trace_simps)
  next
    case False
    then have "\<forall>r. fetch rt (fetches tr) url req = Responded r \<longrightarrow> \<not> ok r" by blast
    from fetchWithRetry_fail [OF this [unfolded req_def] stop]
    obtain e where "fetchWithRetry c rt url options retryCount tr = (Inl e, tr @ [Fetch url req])"
      unfolding req_def by blast
    then show ?thesis using m by (intro exI [of _ "[Fetch url req]"]) (simp add: trace_simps)
  qed
next
  case (Suc n)
  define req where "req = options\<lparr>headers := headers options @ [(''x-api-key'', apiKey c)]\<rparr>"
  have m: "http_method req = http_method options" by (simp add: req_def)
  from Suc(2) have go: "retryCount < maxRetries c" by simp
  show ?case
  proof (cases "\<exists>r. fetch rt (fetches tr) url req = Responded r \<and> ok r")
    case True
    then obtain r where "fetch rt (fetches tr) url req = Responded r" "ok r" by blast
    then have "fetchWithRetry c rt url options retryCount tr = (Inr r, tr @ [Fetch url req])"
      unfolding req_def by (rule fetchWithRetry_ok)
    then show ?thesis using m by (intro exI [of _ "[Fetch url req]"]) (simp add: trace_simps)
  next
    case False
    then have "\<forall>r. fetch rt (fetches tr) url req = Responded r \<longrightarrow> \<not> ok r" by blast
    from fetchWithRetry_retry [OF this [unfolded req_def] go]
    have step: "fetchWithRetry c rt url options retryCount tr =
                fetchWithRetry c rt url options (retryCount + 1)
                  (tr @ [Fetch url req, Sleep (retryDelay c)])"
      unfolding req_def .
    from Suc(2) have n: "n = nat (maxRetries c - (retryCount + 1))" by simp
    from Suc(1) [OF n, of "tr @ [Fetch url req, Sleep (retryDelay c)]"]
    obtain evs where evs:
      "snd (fetchWithRetry c rt url options (retryCount + 1)
              (tr @ [Fetch url req, Sleep (retryDelay c)]))
         = (tr @ [Fetch url req, Sleep (retryDelay c)]) @ evs"
      "handed evs = []" "updates evs = []" "1 \<le> fetches evs"
      "fetches evs \<le> nat (maxRetries c - (retryCount + 1)) + 1"
      "sleeps evs \<le> nat (maxRetries c - (retryCount + 1))"
      "gets evs = (if http_method options = GET then fetches evs else 0)"
      by blast
    have b: "nat (maxRetries c - (retryCount + 1)) + 1 = nat (maxRetries c - retryCount)"
      using go by simp
    show ?thesis
      using evs m b unfolding step
      by (intro exI [of _ "[Fetch url req, Sleep (retryDelay c)] @ evs"])
         (simp add: trace_simps)
  qed
qed


lemma getPayment_trace:
  "\<exists>evs. snd (getPayment c rt paymentId tr) = tr @ evs
         \<and> handed evs = [] \<and> updates evs = []
         \<and> 1 \<le> fetches evs \<and> fetches evs \<le> nat (maxRetries c) + 1
         \<and> sleeps evs \<le> nat (maxRetries c)
         \<and> gets evs = fetches evs"
proof -
  from fetchWithRetry_trace [of c rt "getPaymentUrl c (Some paymentId)"
        "\<lparr> http_method = GET, headers = [], body = None \<rparr>" 0 tr]
  obtain evs where
    "snd (fetchWithRetry c rt (getPaymentUrl c (Some paymentId))
            \<lparr> http_method = GET, headers = [], body = None \<rparr> 0 tr) = tr @ evs"
    "handed evs = []" "updates evs = []" "1 \<le> fetches evs"
    "fetches evs \<le> nat (maxRetries c) + 1" "sleeps evs \<le> nat (maxRetries c)"
    "gets evs = fetches evs"
    by auto
  then show ?thesis
    by (intro exI [of _ evs]) (auto simp: getPayment_def split: prod.splits sum.splits)
qed

lemma pollPaymentStatus_loop_trace:
  "\<exists>evs. snd (pollPaymentStatus_loop c rt paymentId onStatusUpdate attempts tr) = tr @ evs
         \<and> handed evs = []
         \<and> length (updates evs) \<le> nat (maxRetries c - attempts)
         \<and> fetches evs \<le> nat (maxRetries c - attempts) * (nat (maxRetries c) + 1)
         \<and> sleeps evs \<le> nat (maxRetries c - attempts) * (nat (maxRetries c) + 1)"
proof (induction "nat (maxRetries c - attempts)" arbitrary: attempts tr)
  case 0
  then have "\<not> attempts < maxRetries c" by simp
  then have "pollPaymentStatus_loop c rt paymentId onStatusUpdate attempts tr
               = (Inl (TimeoutPolling (maxRetries c)), tr)"
    by (subst pollPaymentStatus_loop.simps) simp
  then show ?case by (intro exI [of _ "[]"]) (simp add: trace_simps)
next
  case (Suc n)
  from Suc(2) have go: "attempts < maxRetries c" by simp
  from Suc(2) have n: "n = nat (maxRetries c - (attempts + 1))" by simp
  have b: "nat (maxRetries c - attempts) = Suc (nat (maxRetries c - (attempts + 1)))"
    using go by simp
  obtain r tr1 where g: "getPayment c rt paymentId tr = (r, tr1)" by (cases "getPayment c rt paymentId tr")
  from getPayment_trace [of c rt paymentId tr] g
  obtain evs1 where evs1: "tr1 = tr @ evs1" "handed evs1 = []" "updates evs1 = []"
    "fetches evs1 \<le> nat (maxRetries c) + 1" "sleeps evs1 \<le> nat (maxRetries c)"
    by auto
  show ?case
  proof (cases "\<exists>payment st. r = Inr payment \<and> getProp payment ''status'' = Inr st \<and> \<not> terminal st")
    case True
    then obtain payment st where r: "r = Inr payment" "getProp payment ''status'' = Inr st"
      "\<not> terminal st" by blast
    define tr2 where "tr2 = (if onStatusUpdate then tr1 @ [StatusUpdate st] else tr1) @ [Sleep (retryDelay c)]"
    have step: "pollPaymentStatus_loop c rt paymentId onStatusUpdate attempts tr
                  = pollPaymentStatus_loop c rt paymentId onStatusUpdate (attempts + 1) tr2"
      using go g r by (subst pollPaymentStatus_loop.simps) (simp add: Let_def tr2_def)
    from Suc(1) [OF n, of tr2]
    obtain evs where evs:
      "snd (pollPaymentStatus_loop c rt paymentId onStatusUpdate (attempts + 1) tr2) = tr2 @ evs"
      "handed evs = []"
      "length (updates evs) \<le> nat (maxRetries c - (attempts + 1))"
      "fetches evs \<le> nat (maxRetries c - (attempts + 1)) * (nat (maxRetries c) + 1)"
      "sleeps evs \<le> nat (maxRetries c - (attempts + 1)) * (nat (maxRetries c) + 1)"
      by blast
    define mid where "mid = evs1 @ (if onStatusUpdate then [StatusUpdate st] else []) @ [Sleep (retryDelay c)]"
    have tr2: "tr2 = tr @ mid" by (simp add: tr2_def mid_def evs1(1))
    have mid: "handed mid = []" "length (updates mid) \<le> 1"
      "fetches mid \<le> nat (maxRetries c) + 1" "sleeps mid \<le> nat (maxRetries c) + 1"
      using evs1 by (simp_all add: mid_def trace_simps)
    show ?thesis
      unfolding step b using evs mid
      by (intro exI [of _ "mid @ evs"]) (simp add: tr2 trace_simps)
  next
    case False
    define fin where "fin = evs1 @ (case r of Inr payment \<Rightarrow>
        (case getProp payment ''status'' of Inr st \<Rightarrow> if onStatusUpdate then [StatusUpdate st] else [] | Inl e \<Rightarrow> [])
        | Inl e \<Rightarrow> [])"
    have stop: "snd (pollPaymentStatus_loop c rt paymentId onStatusUpdate attempts tr) = tr @ fin"
      using go g False evs1(1)
      by (subst pollPaymentStatus_loop.simps) (auto simp: Let_def fin_def split: sum.splits)
    have fin: "handed fin = []" "length (updates fin) \<le> 1"
      "fetches fin \<le> nat (maxRetries c) + 1" "sleeps fin \<le> nat (maxRetries c) + 1"
      using evs1 by (auto simp: fin_def trace_simps split: sum.splits)
    show ?thesis
      unfolding b using fin stop
      by (intro exI [of _ fin]) simp
  qed
qed

lemma createPaymentRequest_poll_trace:
  "\<exists>evs. snd (createPaymentRequest_poll c rt paymentId attempts tr) = tr @ evs
         \<and> handed evs = [] \<and> updates evs = []
         \<and> fetches evs \<le> nat (maxRetries c - attempts) * (nat (maxRetries c) + 1)
         \<and> sleeps evs \<le> nat (maxRetries c - attempts) * (nat (maxRetries c) + 1)
         \<and> gets evs = fetches evs"
proof (induction "nat (maxRetries c - attempts)" arbitrary: attempts tr)
  case 0
  then have "\<not> attempts < maxRetries c" by simp
  then have "createPaymentRequest_poll c rt paymentId attempts tr = (Inl TimeoutPaymentRequest, tr)"
    by (subst createPaymentRequest_poll.simps) simp
  then show ?case by (intro exI [of _ "[]"]) (simp add: trace_simps)
next
  case (Suc n)
  from Suc(2) have go: "attempts < maxRetries c" by simp
  from Suc(2) have n: "n = nat (maxRetries c - (attempts + 1))" by simp
  have b: "nat (maxRetries c - attempts) = Suc (nat (maxRetries c - (attempts + 1)))"
    using go by simp
  obtain r tr1 where g: "getPayment c rt paymentId tr = (r, tr1)"
    by (cases "getPayment c rt paymentId tr")
  from getPayment_trace [of c rt paymentId tr] g
  obtain evs1 where evs1: "tr1 = tr @ evs1" "handed evs1 = []" "updates evs1 = []"
    "fetches evs1 \<le> nat (maxRetries c) + 1" "sleeps evs1 \<le> nat (maxRetries c)"
    "gets evs1 = fetches evs1"
    by auto
  show ?case
  proof (cases "\<exists>payment v. r = Inr payment \<and> data_prop payment ''payment_request'' = Inr v
                  \<and> \<not> truthy v")
    case True
    then obtain payment v where r: "r = Inr payment"
      "data_prop payment ''payment_request'' = Inr v" "\<not> truthy v" by blast
    define mid where "mid = evs1 @ [Sleep (retryDelay c)]"
    have step: "createPaymentRequest_poll c rt paymentId attempts tr
                  = createPaymentRequest_poll c rt paymentId (attempts + 1) (tr @ mid)"
      using go g r evs1(1) by (subst createPaymentRequest_poll.simps) (simp add: mid_def)
    from Suc(1) [OF n, of "tr @ mid"]
    obtain evs where evs:
      "snd (createPaymentRequest_poll c rt paymentId (attempts + 1) (tr @ mid)) = (tr @ mid) @ evs"
      "handed evs = []" "updates evs = []"
      "fetches evs \<le> nat (maxRetries c - (attempts + 1)) * (nat (maxRetries c) + 1)"
      "sleeps evs \<le> nat (maxRetries c - (attempts + 1)) * (nat (maxRetries c) + 1)"
      "gets evs = fetches evs"
      by blast
    have mid: "handed mid = []" "updates mid = []"
      "fetches mid \<le> nat (maxRetries c) + 1" "sleeps mid \<le> nat (maxRetries c) + 1"
      "gets mid = fetches mid"
      using evs1 by (simp_all add: mid_def trace_simps)
    show ?thesis
      unfolding step b using evs mid
      by (intro exI [of _ "mid @ evs"]) (simp add: trace_simps)
  next
    case False
    have stop: "snd (createPaymentRequest_poll c rt paymentId attempts tr) = tr @ evs1"
      using go g False evs1(1)
      by (subst createPaymentRequest_poll.simps) (auto split: sum.splits)
    show ?thesis
      unfolding b using evs1 stop
      by (intro exI [of _ evs1]) simp
  qed
qed

lemma createPaymentRequest_trace:
  "\<exists>evs. snd (createPaymentRequest c rt amount_msats wallet_id description max_fee_msats tr)
           = tr @ evs
         \<and> handed evs = [] \<and> updates evs = []
         \<and> 1 \<le> fetches evs
         \<and> fetches evs \<le> (nat (maxRetries c) + 1) * (nat (maxRetries c) + 1)
         \<and> sleeps evs \<le> (nat (maxRetries c) + 1) * (nat (maxRetries c) + 1)"
proof -
  define options where "options =
    \<lparr> http_method = POST, headers = [(''Content-Type'', ''application/json'')],
      body = Some (JSON_stringify (JObj
        [(''id'', JStr (uuidv4 rt tr)), (''amount_msats'', amount_msats),
         (''currency'', JStr ''btc''), (''description'', description),
         (''payment_kind'', JStr ''bolt11''), (''wallet_id'', JStr wallet_id),
         (''max_fee_msats'', max_fee_msats)])) \<rparr>"
  obtain r tr1 where f: "fetchWithRetry c rt (getPaymentUrl c None) options 0 tr = (r, tr1)"
    by (cases "fetchWithRetry c rt (getPaymentUrl c None) options 0 tr")
  from fetchWithRetry_trace [of c rt "getPaymentUrl c None" options 0 tr] f
  obtain evs1 where evs1: "tr1 = tr @ evs1" "handed evs1 = []" "updates evs1 = []"
    "1 \<le> fetches evs1" "fetches evs1 \<le> nat (maxRetries c) + 1"
    "sleeps evs1 \<le> nat (maxRetries c)"
    by auto
  show ?thesis
  proof (cases "\<exists>response. r = Inr response \<and> status response = 202")
    case True
    then obtain response where r: "r = Inr response" "status response = 202" by blast
    have step: "createPaymentRequest c rt amount_msats wallet_id description max_fee_msats tr
                  = createPaymentRequest_poll c rt (uuidv4 rt tr) 0 (tr @ evs1)"
      using f r evs1(1) by (simp add: createPaymentRequest_def Let_def options_def)
    from createPaymentRequest_poll_trace [of c rt "uuidv4 rt tr" 0 "tr @ evs1"]
    obtain evs where evs:
      "snd (createPaymentRequest_poll c rt (uuidv4 rt tr) 0 (tr @ evs1)) = (tr @ evs1) @ evs"
      "handed evs = []" "updates evs = []"
      "fetches evs \<le> nat (maxRetries c) * (nat (maxRetries c) + 1)"
      "sleeps evs \<le> nat (maxRetries c) * (nat (maxRetries c) + 1)"
      by auto
    show ?thesis
      unfolding step using evs evs1
      by (intro exI [of _ "evs1 @ evs"]) (simp add: trace_simps)
  next
    case False
    have stop: "snd (createPaymentRequest c rt amount_msats wallet_id description max_fee_msats tr)
                  = tr @ evs1"
      using f False evs1(1)
      by (auto simp: createPaymentRequest_def Let_def options_def split: sum.splits)
    show ?thesis
      using evs1 stop by (intro exI [of _ evs1]) simp
  qed
qed

lemma sendPayment_trace:
  "\<exists>evs. snd (sendPayment c rt wallet_id payment_request amount_msats max_fee_msats tr)
           = tr @ evs
         \<and> handed evs = [] \<and> updates evs = []
         \<and> 1 \<le> fetches evs
         \<and> fetches evs \<le> 2 * (nat (maxRetries c) + 1)
         \<and> sleeps evs \<le> 2 * nat (maxRetries c)"
proof -
  define options where "options =
    \<lparr> http_method = POST, headers = [(''Content-Type'', ''application/json'')],
      body = Some (JSON_stringify (JObj
        [(''id'', JStr (uuidv4 rt tr)), (''wallet_id'', JStr wallet_id),
         (''currency'', JStr ''btc''), (''type'', JStr ''bolt11''),
         (''data'', JObj [(''amount_msats'', amount_msats),
                          (''max_fee_msats'', max_fee_msats),
                          (''payment_request'', payment_request)])])) \<rparr>"
  obtain r tr1 where f: "fetchWithRetry c rt (getPaymentUrl c None) options 0 tr = (r, tr1)"
    by (cases "fetchWithRetry c rt (getPaymentUrl c None) options 0 tr")
  from fetchWithRetry_trace [of c rt "getPaymentUrl c None" options 0 tr] f
  obtain evs1 where evs1: "tr1 = tr @ evs1" "handed evs1 = []" "updates evs1 = []"
    "1 \<le> fetches evs1" "fetches evs1 \<le> nat (maxRetries c) + 1"
    "sleeps evs1 \<le> nat (maxRetries c)"
    by auto
  show ?thesis
  proof (cases "\<exists>response. r = Inr response \<and> status response = 202")
    case True
    then obtain response where r: "r = Inr response" "status response = 202" by blast
    have step: "sendPayment c rt wallet_id payment_request amount_msats max_fee_msats tr
                  = getPayment c rt (uuidv4 rt tr) (tr @ evs1)"
      using f r evs1(1) by (simp add: sendPayment_def Let_def options_def)
    from getPayment_trace [of c rt "uuidv4 rt tr" "tr @ evs1"]
    obtain evs where evs:
      "snd (getPayment c rt (uuidv4 rt tr) (tr @ evs1)) = (tr @ evs1) @ evs"
      "handed evs = []" "updates evs = []"
      "fetches evs \<le> nat (maxRetries c) + 1"
      "sleeps evs \<le> nat (maxRetries c)"
      by auto
    show ?thesis
      unfolding step using evs evs1
      by (intro exI [of _ "evs1 @ evs"]) (simp add: trace_simps)
  next
    case False
    have stop: "snd (sendPayment c rt wallet_id payment_request amount_msats max_fee_msats tr)
                  = tr @ evs1"
      using f False evs1(1)
      by (auto simp: sendPayment_def Let_def options_def split: sum.splits)
    show ?thesis
      using evs1 stop by (intro exI [of _ evs1]) simp
  qed
qed

section \<open>Polling a backend that answers at once\<close>






lemma demo_client_simps:
  "apiKey demo_client = ''key''" "maxRetries demo_client = 3" "retryDelay demo_client = 2000"
  "getPaymentUrl demo_client (Some ''p1'')
     = ''https://voltageapi.com/v1/organizations/org/environments/env/payments/p1''"
  "getPaymentUrl demo_client None
     = ''https://voltageapi.com/v1/organizations/org/environments/env/payments''"
  by (simp_all add: demo_client_def constructor_def getPaymentUrl_def)


section \<open>What the gateway hands to the relay\<close>

lemma init_service:
  "relay (fst (init g rt tr0)) = Some (relayUrl (config g))"
  "config (fst (init g rt tr0)) = config g"
  "voltage (fst (init g rt tr0)) = voltage g"
  by (simp_all add: init_def Let_def)

lemma answered_none: "handed evs = [] \<Longrightarrow> answered n event False evs"
  by (simp add: answered_def acknowledged_none)

lemma createSignedEvent_fields:
  "kind (createSignedEvent rt k c t sk tr) = k"
  "tags (createSignedEvent rt k c t sk tr) = t"
  "content (createSignedEvent rt k c t sk tr) = c"
  by (simp_all add: createSignedEvent_def Let_def)

lemma publish_attempt:
  assumes "relay g = Some r"
    and "kind ev = RESPONSE"
    and "tags ev = [[''p'', pubkey event], [''e'', event_id event]]"
  shows "\<exists>evs. snd (publish g rt ev tr) = tr @ evs \<and> fetches evs = 0 \<and> sleeps evs = 0
           \<and> answered 1 event (fst (publish g rt ev tr) = Inr ()) evs"
proof (cases "relay_publish rt (length (handed tr)) ev")
  case None
  then have "publish g rt ev tr = (Inr (), tr @ [Publish ev True])"
    using assms(1) by (simp add: publish_def)
  then show ?thesis
    using assms(2,3) by (intro exI [of _ "[Publish ev True]"]) (simp add: answered_def trace_simps)
next
  case (Some e)
  then have "publish g rt ev tr = (Inl e, tr @ [Publish ev False])"
    using assms(1) by (simp add: publish_def)
  then show ?thesis
    using assms(2,3) by (intro exI [of _ "[Publish ev False]"]) (simp add: answered_def trace_simps)
qed

lemma sendError_attempt:
  assumes "relay g = Some r"
  shows "\<exists>evs. snd (sendError g rt event code msg tr) = tr @ evs
           \<and> fetches evs = 0 \<and> sleeps evs = 0
           \<and> answered 1 event (fst (sendError g rt event code msg tr) = Inr ()) evs"
proof -
  define plaintext where "plaintext = JSON_stringify (JObj [(''result_type'', JStr ''error''),
                           (''error'', JObj [(''code'', JStr (code_string code)),
                                             (''message'', JStr msg)]),
                           (''result'', JNull)])"
  show ?thesis
  proof (cases "nip04_encrypt rt (secret (config g)) (pubkey event) plaintext")
    case (Inl e)
    then have "sendError g rt event code msg tr = (Inl e, tr)"
      by (simp add: sendError_def Let_def plaintext_def)
    then show ?thesis
      by (intro exI [of _ "[]"]) (simp add: answered_def trace_simps)
  next
    case (Inr encrypted)
    define ev where "ev = createSignedEvent rt RESPONSE encrypted
        [[''p'', pubkey event], [''e'', event_id event]] (secret (config g)) tr"
    have s: "sendError g rt event code msg tr = publish g rt ev tr"
      using Inr by (simp add: sendError_def Let_def plaintext_def ev_def)
    have "kind ev = RESPONSE" "tags ev = [[''p'', pubkey event], [''e'', event_id event]]"
      by (simp_all add: ev_def createSignedEvent_fields)
    from publish_attempt [OF assms this, of rt tr] show ?thesis
      unfolding s .
  qed
qed

lemma sendResponse_attempt:
  assumes "relay g = Some r"
  shows "\<exists>evs. snd (sendResponse g rt event m result tr) = tr @ evs
           \<and> fetches evs = 0 \<and> sleeps evs = 0
           \<and> answered 1 event (fst (sendResponse g rt event m result tr) = Inr ()) evs"
proof -
  define plaintext where "plaintext = JSON_stringify
      (JObj [(''result_type'', m), (''error'', JNull), (''result'', result)])"
  show ?thesis
  proof (cases "nip04_encrypt rt (secret (config g)) (pubkey event) plaintext")
    case (Inl e)
    then have "sendResponse g rt event m result tr = (Inl e, tr)"
      by (simp add: sendResponse_def Let_def plaintext_def)
    then show ?thesis
      by (intro exI [of _ "[]"]) (simp add: answered_def trace_simps)
  next
    case (Inr encrypted)
    define ev where "ev = createSignedEvent rt RESPONSE encrypted
        [[''p'', pubkey event], [''e'', event_id event]] (secret (config g)) tr"
    have s: "sendResponse g rt event m result tr = publish g rt ev tr"
      using Inr by (simp add: sendResponse_def Let_def plaintext_def ev_def)
    have "kind ev = RESPONSE" "tags ev = [[''p'', pubkey event], [''e'', event_id event]]"
      by (simp_all add: ev_def createSignedEvent_fields)
    from publish_attempt [OF assms this, of rt tr] show ?thesis
      unfolding s .
  qed
qed

lemma handleRequest_catch_attempt:
  assumes "relay g = Some r"
  shows "\<exists>evs. snd (handleRequest_catch g rt event e tr) = tr @ evs
           \<and> fetches evs = 0 \<and> sleeps evs = 0
           \<and> answered 1 event (fst (handleRequest_catch g rt event e tr) = Inr ()) evs"
  using sendError_attempt [OF assms, of rt event INTERNAL "message rt e" tr]
    sendError_attempt [OF assms, of rt event INTERNAL "''Unknown error occurred''" tr]
  by (simp add: handleRequest_catch_def)

text \<open>When the encryption to the sender works and the relay accepts the event.\<close>

lemma sendError_accepted:
  assumes "relay g = Some r"
    and "\<forall>plaintext. \<exists>c. nip04_encrypt rt (secret (config g)) (pubkey event) plaintext = Inr c"
    and "\<forall>ev. relay_publish rt (length (handed tr)) ev = None"
  shows "\<exists>response doc. sendError g rt event code msg tr = (Inr (), tr @ [Publish response True])
           \<and> response_to rt g event response doc
           \<and> is_error_envelope doc \<and> \<not> is_result_envelope doc
           \<and> error_code doc = JStr (code_string code)
           \<and> error_message doc = JStr msg"
proof -
  define doc where "doc = JObj [(''result_type'', JStr ''error''),
                           (''error'', JObj [(''code'', JStr (code_string code)),
                                             (''message'', JStr msg)]),
                           (''result'', JNull)]"
  from assms(2) obtain c where c: "nip04_encrypt rt (secret (config g)) (pubkey event) (Json doc) = Inr c"
    by blast
  define response where "response = createSignedEvent rt RESPONSE c
      [[''p'', pubkey event], [''e'', event_id event]] (secret (config g)) tr"
  have "sendError g rt event code msg tr = (Inr (), tr @ [Publish response True])"
    using assms(1,3) c
    by (simp add: sendError_def publish_def Let_def JSON_stringify_def response_def doc_def)
  moreover have "response_to rt g event response doc"
    using c by (simp add: response_to_def response_def createSignedEvent_fields)
  moreover have "is_error_envelope doc" "\<not> is_result_envelope doc"
    "error_code doc = JStr (code_string code)" "error_message doc = JStr msg"
    by (simp_all add: doc_def is_error_envelope_def is_result_envelope_def error_code_def
          error_message_def)
  ultimately show ?thesis by blast
qed

lemma sendResponse_accepted:
  assumes "relay g = Some r"
    and "\<forall>plaintext. \<exists>c. nip04_encrypt rt (secret (config g)) (pubkey event) plaintext = Inr c"
    and "\<forall>ev. relay_publish rt (length (handed tr)) ev = None"
  shows "\<exists>response doc. sendResponse g rt event (JStr m) (JObj kvs) tr
             = (Inr (), tr @ [Publish response True])
           \<and> response_to rt g event response doc
           \<and> is_result_envelope doc \<and> \<not> is_error_envelope doc"
proof -
  define doc where "doc = JObj [(''result_type'', JStr m), (''error'', JNull),
                                (''result'', serializable (JObj kvs))]"
  from assms(2) obtain c where c: "nip04_encrypt rt (secret (config g)) (pubkey event) (Json doc) = Inr c"
    by blast
  define response where "response = createSignedEvent rt RESPONSE c
      [[''p'', pubkey event], [''e'', event_id event]] (secret (config g)) tr"
  have "sendResponse g rt event (JStr m) (JObj kvs) tr = (Inr (), tr @ [Publish response True])"
    using assms(1,3) c
    by (simp add: sendResponse_def publish_def Let_def JSON_stringify_def response_def doc_def)
  moreover have "response_to rt g event response doc"
    using c by (simp add: response_to_def response_def createSignedEvent_fields)
  moreover have "is_result_envelope doc" "\<not> is_error_envelope doc"
    by (simp_all add: doc_def is_error_envelope_def is_result_envelope_def)
  ultimately show ?thesis by blast
qed

lemma handlePayInvoice_trace:
  "\<exists>evs. snd (handlePayInvoice g rt params tr) = tr @ evs \<and> handed evs = []"
proof (cases "getProp params ''invoice''")
  case (Inl e)
  then show ?thesis by (simp add: handlePayInvoice_def)
next
  case invoice: (Inr invoice)
  show ?thesis
  proof (cases "getProp params ''amount''")
    case (Inl e)
    then show ?thesis using invoice by (simp add: handlePayInvoice_def)
  next
    case amount: (Inr amount)
    define a where "a = (if truthy amount then amount else JNum 0)"
    obtain r tr1 where sp:
      "sendPayment (voltage g) rt (walletId (config g)) invoice a JUndefined tr = (r, tr1)"
      by (cases "sendPayment (voltage g) rt (walletId (config g)) invoice a JUndefined tr")
    from sendPayment_trace [of "voltage g" rt "walletId (config g)" invoice a JUndefined tr] sp
    obtain evs where evs: "tr1 = tr @ evs" "handed evs = []" by auto
    have "snd (handlePayInvoice g rt params tr) = tr1"
      using invoice amount sp
      by (simp add: handlePayInvoice_def a_def [symmetric] split: sum.splits)
    then show ?thesis using evs by simp
  qed
qed

lemma handleMakeInvoice_trace:
  "\<exists>evs. snd (handleMakeInvoice g rt params tr) = tr @ evs \<and> handed evs = []"
proof (cases "getProp params ''amount''")
  case (Inl e)
  then show ?thesis by (simp add: handleMakeInvoice_def)
next
  case amount: (Inr amount)
  show ?thesis
  proof (cases "getProp params ''description''")
    case (Inl e)
    then show ?thesis using amount by (simp add: handleMakeInvoice_def)
  next
    case description: (Inr description)
    obtain r tr1 where cp:
      "createPaymentRequest (voltage g) rt amount (walletId (config g)) description JUndefined tr
         = (r, tr1)"
      by (cases "createPaymentRequest (voltage g) rt amount (walletId (config g)) description
                   JUndefined tr")
    from createPaymentRequest_trace [of "voltage g" rt amount "walletId (config g)" description
           JUndefined tr] cp
    obtain evs where evs: "tr1 = tr @ evs" "handed evs = []" by auto
    have "snd (handleMakeInvoice g rt params tr) = tr1"
      using amount description cp
      by (simp add: handleMakeInvoice_def split: sum.splits)
    then show ?thesis using evs by simp
  qed
qed

lemma handlePayInvoice_result:
  "fst (handlePayInvoice g rt params tr) = Inr result \<Longrightarrow> \<exists>kvs. result = JObj kvs"
  by (auto simp: handlePayInvoice_def split: sum.splits prod.splits)

lemma handleMakeInvoice_result:
  "fst (handleMakeInvoice g rt params tr) = Inr result \<Longrightarrow> \<exists>kvs. result = JObj kvs"
  by (auto simp: handleMakeInvoice_def split: sum.splits prod.splits)

lemma dispatch_trace:
  "\<exists>evs. snd (dispatch g rt method params tr) = tr @ evs \<and> handed evs = []"
  using handlePayInvoice_trace [of g rt params tr] handleMakeInvoice_trace [of g rt params tr]
  by (simp add: dispatch_def handleGetBalance_def handleGetInfo_def split: sum.splits)

lemma dispatch_result:
  "fst (dispatch g rt method params tr) = Inr result \<Longrightarrow> \<exists>kvs. result = JObj kvs"
  using handlePayInvoice_result [of g rt params tr result]
    handleMakeInvoice_result [of g rt params tr result]
  by (auto simp: dispatch_def handleGetBalance_def handleGetInfo_def split: if_splits sum.splits)

lemma answered_after_none:
  "answered 0 event False evs0 \<Longrightarrow> answered n event resolved evs
     \<Longrightarrow> answered n event resolved (evs0 @ evs)"
  by (auto simp: answered_def trace_simps)

lemma answered_after_one:
  "answered 1 event False evs1 \<Longrightarrow> answered 1 event resolved evs
     \<Longrightarrow> answered 2 event resolved (evs1 @ evs)"
  by (auto simp: answered_def trace_simps)

lemma answered_after_two:
  "answered 2 event False evs2 \<Longrightarrow> answered 1 event resolved evs
     \<Longrightarrow> answered 3 event resolved (evs2 @ evs)"
  by (auto simp: answered_def trace_simps)

lemma answered_more:
  "answered 0 event resolved evs \<Longrightarrow> answered 1 event resolved evs"
  "answered 1 event resolved evs \<Longrightarrow> answered 2 event resolved evs"
  "answered 2 event resolved evs \<Longrightarrow> answered 3 event resolved evs"
  by (simp_all add: answered_def)

lemma handleRequest_unsupported:
  assumes "relay g = Some r"
    and "getProp request ''method'' = Inr requested"
    and "\<not> array_includes SUPPORTED_METHODS requested"
  shows "\<exists>evs. snd (handleRequest g rt event request tr) = tr @ evs
           \<and> fetches evs = 0 \<and> sleeps evs = 0
           \<and> answered 1 event (fst (handleRequest g rt event request tr) = Inr ()) evs"
proof (cases "ToString rt requested")
  case (Inl e)
  then have "handleRequest g rt event request tr = (Inl e, tr)"
    using assms(2,3) by (simp add: handleRequest_def)
  then show ?thesis by (intro exI [of _ "[]"]) (simp add: answered_def trace_simps)
next
  case (Inr m)
  then have "handleRequest g rt event request tr
               = sendError g rt event NOT_IMPLEMENTED (''Method '' @ m @ '' not supported'') tr"
    using assms(2,3) by (simp add: handleRequest_def)
  then show ?thesis
    using sendError_attempt [OF assms(1), of rt event NOT_IMPLEMENTED
            "''Method '' @ m @ '' not supported''" tr]
    by simp
qed

lemma handleRequest_attempts:
  assumes "relay g = Some r"
  shows "\<exists>evs. snd (handleRequest g rt event request tr) = tr @ evs
           \<and> answered 2 event (fst (handleRequest g rt event request tr) = Inr ()) evs"
proof (cases "getProp request ''method''")
  case (Inl e)
  then have "handleRequest g rt event request tr = (Inl e, tr)"
    by (simp add: handleRequest_def)
  then show ?thesis by (intro exI [of _ "[]"]) (simp add: answered_def trace_simps)
next
  case meth: (Inr requested)
  show ?thesis
  proof (cases "array_includes SUPPORTED_METHODS requested")
    case False
    from handleRequest_unsupported [OF assms meth False, of rt event tr]
    show ?thesis by (blast intro: answered_more(2))
  next
    case True
    show ?thesis
    proof (cases "getProp request ''params''")
      case (Inl e)
      then have h: "handleRequest g rt event request tr = handleRequest_catch g rt event e tr"
        using meth True by (simp add: handleRequest_def)
      from handleRequest_catch_attempt [OF assms, of rt event e tr]
      show ?thesis
        unfolding h by (blast intro: answered_more(2))
    next
      case params: (Inr params)
      obtain res tr1 where d: "dispatch g rt requested params tr = (res, tr1)"
        by (cases "dispatch g rt requested params tr")
      from dispatch_trace [of g rt requested params tr] d
      obtain evs0 where evs0: "tr1 = tr @ evs0" "handed evs0 = []" by auto
      have a0: "answered 0 event False evs0" using evs0(2) by (rule answered_none)
      show ?thesis
      proof (cases res)
        case (Inl e)
        then have h: "handleRequest g rt event request tr = handleRequest_catch g rt event e tr1"
          using meth True params d by (simp add: handleRequest_def)
        from handleRequest_catch_attempt [OF assms, of rt event e tr1]
        obtain evs1 where evs1: "snd (handleRequest_catch g rt event e tr1) = tr1 @ evs1"
          "answered 1 event (fst (handleRequest_catch g rt event e tr1) = Inr ()) evs1"
          by blast
        from answered_after_none [OF a0 evs1(2)]
        have "answered 2 event (fst (handleRequest_catch g rt event e tr1) = Inr ()) (evs0 @ evs1)"
          by (rule answered_more(2))
        then show ?thesis
          unfolding h using evs1(1) evs0(1) by (intro exI [of _ "evs0 @ evs1"]) simp
      next
        case (Inr result)
        obtain sr tr2 where s: "sendResponse g rt event requested result tr1 = (sr, tr2)"
          by (cases "sendResponse g rt event requested result tr1")
        from sendResponse_attempt [OF assms, of rt event requested result tr1] s
        obtain evs2 where evs2: "tr2 = tr1 @ evs2" "answered 1 event (sr = Inr ()) evs2"
          by auto
        show ?thesis
        proof (cases sr)
          case sent: (Inr u)
          then have h: "handleRequest g rt event request tr = (Inr (), tr2)"
            using meth True params d Inr s by (simp add: handleRequest_def)
          from evs2(2) sent have "answered 1 event True evs2" by simp
          from answered_after_none [OF a0 this]
          have "answered 2 event True (evs0 @ evs2)" by (rule answered_more(2))
          then show ?thesis
            unfolding h using evs2(1) evs0(1) by (intro exI [of _ "evs0 @ evs2"]) simp
        next
          case failed: (Inl e)
          then have h: "handleRequest g rt event request tr = handleRequest_catch g rt event e tr2"
            using meth True params d Inr s by (simp add: handleRequest_def)
          from evs2(2) failed have a2: "answered 1 event False evs2" by simp
          from answered_after_none [OF a0 a2] have a02: "answered 1 event False (evs0 @ evs2)" .
          from handleRequest_catch_attempt [OF assms, of rt event e tr2]
          obtain evs3 where evs3: "snd (handleRequest_catch g rt event e tr2) = tr2 @ evs3"
            "answered 1 event (fst (handleRequest_catch g rt event e tr2) = Inr ()) evs3"
            by blast
          from answered_after_one [OF a02 evs3(2)]
          have "answered 2 event (fst (handleRequest_catch g rt event e tr2) = Inr ())
                  ((evs0 @ evs2) @ evs3)" .
          then show ?thesis
            unfolding h using evs3(1) evs2(1) evs0(1)
            by (intro exI [of _ "(evs0 @ evs2) @ evs3"]) simp
        qed
      qed
    qed
  qed
qed

lemma handleRequest_accepted:
  assumes "relay g = Some r"
    and "\<forall>plaintext. \<exists>c. nip04_encrypt rt (secret (config g)) (pubkey event) plaintext = Inr c"
    and "\<forall>ev. relay_publish rt (length (handed tr)) ev = None"
  shows "(\<exists>e. handleRequest g rt event request tr = (Inl e, tr))
       \<or> (\<exists>tr' response doc. handleRequest g rt event request tr = (Inr (), tr')
             \<and> handed tr' = handed tr @ [response]
             \<and> acknowledged tr' = acknowledged tr @ [response]
             \<and> response_to rt g event response doc
             \<and> is_result_envelope doc \<noteq> is_error_envelope doc)"
proof (cases "getProp request ''method''")
  case (Inl e)
  then show ?thesis by (simp add: handleRequest_def)
next
  case meth: (Inr requested)
  have catch: "\<exists>response doc. handleRequest_catch g rt event e tr1
                   = (Inr (), tr1 @ [Publish response True])
                 \<and> response_to rt g event response doc
                 \<and> is_error_envelope doc \<and> \<not> is_result_envelope doc"
    if "handed tr1 = handed tr" for e tr1
  proof -
    from assms(3) that have n: "\<forall>ev. relay_publish rt (length (handed tr1)) ev = None" by simp
    show ?thesis
      using sendError_accepted [OF assms(1,2) n, of INTERNAL "message rt e"]
        sendError_accepted [OF assms(1,2) n, of INTERNAL "''Unknown error occurred''"]
      by (cases "instanceof_Error e") (auto simp: handleRequest_catch_def)
  qed
  show ?thesis
  proof (cases "array_includes SUPPORTED_METHODS requested")
    case False
    show ?thesis
    proof (cases "ToString rt requested")
      case (Inl e)
      then show ?thesis using meth False by (simp add: handleRequest_def)
    next
      case (Inr m)
      from sendError_accepted [OF assms, of NOT_IMPLEMENTED "''Method '' @ m @ '' not supported''"]
      obtain response doc where
        "sendError g rt event NOT_IMPLEMENTED (''Method '' @ m @ '' not supported'') tr
           = (Inr (), tr @ [Publish response True])"
        "response_to rt g event response doc" "is_error_envelope doc" "\<not> is_result_envelope doc"
        by blast
      then show ?thesis
        using meth False Inr
        by (intro disjI2 exI [of _ "tr @ [Publish response True]"] exI [of _ response]
              exI [of _ doc])
           (simp add: handleRequest_def trace_simps)
    qed
  next
    case True
    then obtain m where m: "requested = JStr m" by (auto simp: array_includes_def)
    show ?thesis
    proof (cases "getProp request ''params''")
      case (Inl e)
      from catch [of tr e]
      obtain response doc where
        "handleRequest_catch g rt event e tr = (Inr (), tr @ [Publish response True])"
        "response_to rt g event response doc" "is_error_envelope doc" "\<not> is_result_envelope doc"
        by auto
      then show ?thesis
        using meth True Inl
        by (intro disjI2 exI [of _ "tr @ [Publish response True]"] exI [of _ response]
              exI [of _ doc])
           (simp add: handleRequest_def trace_simps)
    next
      case params: (Inr params)
      obtain res tr1 where d: "dispatch g rt requested params tr = (res, tr1)"
        by (cases "dispatch g rt requested params tr")
      from dispatch_trace [of g rt requested params tr] d
      obtain evs0 where evs0: "tr1 = tr @ evs0" "handed evs0 = []" by auto
      have p1: "handed tr1 = handed tr" "acknowledged tr1 = acknowledged tr"
        using evs0 by (simp_all add: trace_simps acknowledged_none)
      show ?thesis
      proof (cases res)
        case (Inl e)
        from catch [OF p1(1), of e]
        obtain response doc where
          "handleRequest_catch g rt event e tr1 = (Inr (), tr1 @ [Publish response True])"
          "response_to rt g event response doc" "is_error_envelope doc" "\<not> is_result_envelope doc"
          by auto
        then show ?thesis
          using meth True params d Inl p1
          by (intro disjI2 exI [of _ "tr1 @ [Publish response True]"] exI [of _ response]
                exI [of _ doc])
             (simp add: handleRequest_def trace_simps)
      next
        case (Inr result)
        with dispatch_result [of g rt requested params tr result] d
        obtain kvs where kvs: "result = JObj kvs" by auto
        from assms(3) p1 have n: "\<forall>ev. relay_publish rt (length (handed tr1)) ev = None" by simp
        from sendResponse_accepted [OF assms(1,2) n, of m kvs]
        obtain response doc where
          "sendResponse g rt event (JStr m) (JObj kvs) tr1 = (Inr (), tr1 @ [Publish response True])"
          "response_to rt g event response doc" "is_result_envelope doc" "\<not> is_error_envelope doc"
          by blast
        then show ?thesis
          using meth True params d Inr p1 m kvs
          by (intro disjI2 exI [of _ "tr1 @ [Publish response True]"] exI [of _ response]
                exI [of _ doc])
             (simp add: handleRequest_def trace_simps)
      qed
    qed
  qed
qed

lemma demo_service_simps:
  "config (fst (init demo_service rt tr0))
     = \<lparr> relayUrl = ''wss://relay.damus.io'', config_pubkey = ''service-pubkey'',
         secret = ''service-secret'', walletId = ''w1'' \<rparr>"
  "voltage (fst (init demo_service rt tr0)) = demo_client"
  "relay (fst (init demo_service rt tr0)) = Some ''wss://relay.damus.io''"
  by (simp_all add: init_def demo_service_def Let_def)

lemmas gateway_eval =
  onevent_def handleRequest_def handleRequest_catch_def dispatch_def handleGetInfo_def
  handleGetBalance_def handlePayInvoice_def sendResponse_def sendError_def publish_def
  createSignedEvent_def demo_service_simps demo_runtime_def demo_event_def undecryptable_def
  inbox_of_def scripted_relay_def demo_encrypt_def is_result_envelope_def is_error_envelope_def
  error_code_def array_includes_def SUPPORTED_METHODS_def SUPPORTED_NOTIFICATIONS_def
  RESPONSE_def REQUEST_def JSON_stringify_def Let_def

section \<open>The claims\<close>

text \<open>
  Claim C9. Every retry and poll loop of the client is bounded, whatever the backend
  answers and however often the network fails. \<open>fetchWithRetry\<close> is a total function
  that makes at most \<open>maxRetries + 1\<close> requests and waits at most \<open>maxRetries\<close> times.
  \<open>pollPaymentStatus\<close> makes at most \<open>maxRetries\<close> rounds: it calls its observer at most
  \<open>maxRetries\<close> times and makes at most \<open>maxRetries * (maxRetries + 1)\<close> requests.
  \<open>createPaymentRequest\<close> makes at most \<open>(maxRetries + 1) * (maxRetries + 1)\<close> requests.
  Both loops stop without any effect once their counter has reached \<open>maxRetries\<close>.
\<close>

theorem retry_and_poll_loops_bounded:
  "fetches (snd (fetchWithRetry c rt url options 0 tr)) \<le> fetches tr + nat (maxRetries c) + 1
   \<and> sleeps (snd (fetchWithRetry c rt url options 0 tr)) \<le> sleeps tr + nat (maxRetries c)
   \<and> fetches (snd (pollPaymentStatus c rt paymentId onStatusUpdate tr))
        \<le> fetches tr + nat (maxRetries c) * (nat (maxRetries c) + 1)
   \<and> sleeps (snd (pollPaymentStatus c rt paymentId onStatusUpdate tr))
        \<le> sleeps tr + nat (maxRetries c) * (nat (maxRetries c) + 1)
   \<and> length (updates (snd (pollPaymentStatus c rt paymentId onStatusUpdate tr)))
        \<le> length (updates tr) + nat (maxRetries c)
   \<and> fetches (snd (createPaymentRequest c rt amount_msats wallet_id description max_fee_msats tr))
        \<le> fetches tr + (nat (maxRetries c) + 1) * (nat (maxRetries c) + 1)
   \<and> sleeps (snd (createPaymentRequest c rt amount_msats wallet_id description max_fee_msats tr))
        \<le> sleeps tr + (nat (maxRetries c) + 1) * (nat (maxRetries c) + 1)
   \<and> pollPaymentStatus_loop c rt paymentId onStatusUpdate (maxRetries c) tr
        = (Inl (TimeoutPolling (maxRetries c)), tr)
   \<and> createPaymentRequest_poll c rt paymentId (maxRetries c) tr
        = (Inl TimeoutPaymentRequest, tr)"
proof -
  from fetchWithRetry_trace [of c rt url options 0 tr]
  obtain e1 where e1: "snd (fetchWithRetry c rt url options 0 tr) = tr @ e1"
    "fetches e1 \<le> nat (maxRetries c) + 1" "sleeps e1 \<le> nat (maxRetries c)"
    by auto
  from pollPaymentStatus_loop_trace [of c rt paymentId onStatusUpdate 0 tr]
  obtain e2 where e2: "snd (pollPaymentStatus c rt paymentId onStatusUpdate tr) = tr @ e2"
    "length (updates e2) \<le> nat (maxRetries c)"
    "fetches e2 \<le> nat (maxRetries c) * (nat (maxRetries c) + 1)"
    "sleeps e2 \<le> nat (maxRetries c) * (nat (maxRetries c) + 1)"
    by (auto simp: pollPaymentStatus_def)
  from createPaymentRequest_trace [of c rt amount_msats wallet_id description max_fee_msats tr]
  obtain e3 where e3:
    "snd (createPaymentRequest c rt amount_msats wallet_id description max_fee_msats tr) = tr @ e3"
    "fetches e3 \<le> (nat (maxRetries c) + 1) * (nat (maxRetries c) + 1)"
    "sleeps e3 \<le> (nat (maxRetries c) + 1) * (nat (maxRetries c) + 1)"
    by auto
  have s1: "pollPaymentStatus_loop c rt paymentId onStatusUpdate (maxRetries c) tr
              = (Inl (TimeoutPolling (maxRetries c)), tr)"
    by (subst pollPaymentStatus_loop.simps) simp
  have s2: "createPaymentRequest_poll c rt paymentId (maxRetries c) tr
              = (Inl TimeoutPaymentRequest, tr)"
    by (subst createPaymentRequest_poll.simps) simp
  show ?thesis
    unfolding e1(1) e2(1) e3(1) s1 s2 using e1(2,3) e2(2,3,4) e3(2,3)
    by (simp add: trace_simps)
qed

theorem retry_and_poll_loops_bounded_witness:
  "fetches (snd (fetchWithRetry demo_client (demo_runtime (\<lambda>n. NetworkFailure ''down'') undecryptable)
                   ''u'' \<lparr> http_method = GET, headers = [], body = None \<rparr> 0 [])) = 4
   \<and> sleeps (snd (fetchWithRetry demo_client (demo_runtime (\<lambda>n. NetworkFailure ''down'') undecryptable)
                   ''u'' \<lparr> http_method = GET, headers = [], body = None \<rparr> 0 [])) = 3
   \<and> maxRetries demo_client = 3"
  using retry_and_poll_loops_bounded [of demo_client "demo_runtime (\<lambda>n. NetworkFailure ''down'') undecryptable"
     "''u''" "\<lparr> http_method = GET, headers = [], body = None \<rparr>" "[]"]
  by (simp add: fetchWithRetry.simps demo_client_def constructor_def demo_runtime_def Let_def trace_simps)





text \<open>
  Claim C3, at a backend that answers every request \<open>403\<close>, with \<open>maxRetries = 3\<close>. The
  \<open>HTTP error!\<close> that \<open>fetchWithRetry\<close> throws for the \<open>403\<close> is caught by its own \<open>catch\<close>
  block, which retries: the call makes four requests and waits three times before the
  error \<open>HTTP error! status: 403\<close> reaches the caller, exactly as it does at a backend
  that answers every request \<open>404\<close>.
\<close>

theorem fetchWithRetry_retries_403:
  "fetchWithRetry demo_client
     (demo_runtime (\<lambda>n. Responded \<lparr> status = 403, bodyText = NotJson ''Forbidden'' \<rparr>) undecryptable)
     ''https://voltageapi.com/v1/organizations/org/environments/env/payments/p1''
     \<lparr> http_method = GET, headers = [], body = None \<rparr> 0 []
   = (Inl (HttpError 403),
      [Fetch ''https://voltageapi.com/v1/organizations/org/environments/env/payments/p1''
         (fetchById demo_client),
       Sleep 2000,
       Fetch ''https://voltageapi.com/v1/organizations/org/environments/env/payments/p1''
         (fetchById demo_client),
       Sleep 2000,
       Fetch ''https://voltageapi.com/v1/organizations/org/environments/env/payments/p1''
         (fetchById demo_client),
       Sleep 2000,
       Fetch ''https://voltageapi.com/v1/organizations/org/environments/env/payments/p1''
         (fetchById demo_client)])
   \<and> fetchWithRetry demo_client
     (demo_runtime (\<lambda>n. Responded \<lparr> status = 404, bodyText = NotJson ''Not Found'' \<rparr>) undecryptable)
     ''https://voltageapi.com/v1/organizations/org/environments/env/payments/p1''
     \<lparr> http_method = GET, headers = [], body = None \<rparr> 0 []
   = (Inl (HttpError 404),
      [Fetch ''https://voltageapi.com/v1/organizations/org/environments/env/payments/p1''
         (fetchById demo_client),
       Sleep 2000,
       Fetch ''https://voltageapi.com/v1/organizations/org/environments/env/payments/p1''
         (fetchById demo_client),
       Sleep 2000,
       Fetch ''https://voltageapi.com/v1/organizations/org/environments/env/payments/p1''
         (fetchById demo_client),
       Sleep 2000,
       Fetch ''https://voltageapi.com/v1/organizations/org/environments/env/payments/p1''
         (fetchById demo_client)])"
  by (simp add: fetchWithRetry.simps demo_client_simps demo_runtime_def Let_def ok_def
        fetchById_def trace_simps)

text \<open>
  Claim C10. \<open>createPaymentRequest\<close> when the creation request is answered at once with a
  success other than \<open>202\<close>: the result is the parsed body of that answer as it is, the
  only request made is the creation request (no fetch by id follows), and
  \<open>data.payment_request\<close> is not looked at, so the record returned may have an empty
  invoice text.
\<close>

theorem createPaymentRequest_immediate:
  assumes "\<forall>request. fetch rt (fetches tr) (getPaymentUrl c None) request = Responded response"
    and "ok response"
    and "status response \<noteq> 202"
  shows "\<exists>post. http_method post = POST
           \<and> createPaymentRequest c rt amount_msats wallet_id description max_fee_msats tr
               = (JSON_parse (bodyText response), tr @ [Fetch (getPaymentUrl c None) post])
           \<and> gets (snd (createPaymentRequest c rt amount_msats wallet_id description
                           max_fee_msats tr)) = gets tr"
proof -
  define options where "options =
    \<lparr> http_method = POST, headers = [(''Content-Type'', ''application/json'')],
      body = Some (JSON_stringify (JObj
        [(''id'', JStr (uuidv4 rt tr)), (''amount_msats'', amount_msats),
         (''currency'', JStr ''btc''), (''description'', description),
         (''payment_kind'', JStr ''bolt11''), (''wallet_id'', JStr wallet_id),
         (''max_fee_msats'', max_fee_msats)])) \<rparr>"
  define post where "post = options\<lparr>headers := headers options @ [(''x-api-key'', apiKey c)]\<rparr>"
  have m: "http_method post = POST" by (simp add: post_def options_def)
  from assms(1) have "fetch rt (fetches tr) (getPaymentUrl c None) post = Responded response"
    by simp
  from fetchWithRetry_ok [OF this [unfolded post_def] assms(2), of 0]
  have "fetchWithRetry c rt (getPaymentUrl c None) options 0 tr
          = (Inr response, tr @ [Fetch (getPaymentUrl c None) post])"
    by (simp add: post_def)
  then have r: "createPaymentRequest c rt amount_msats wallet_id description max_fee_msats tr
               = (JSON_parse (bodyText response), tr @ [Fetch (getPaymentUrl c None) post])"
    using assms(3) by (simp add: createPaymentRequest_def Let_def options_def json_def)
  show ?thesis
    unfolding r using m by (intro exI [of _ post]) (simp add: trace_simps)
qed

theorem createPaymentRequest_immediate_witness:
  "createPaymentRequest demo_client
     (demo_runtime (scripted
        [Responded \<lparr> status = 200, bodyText = Json (record_with ''receiving'' (JStr [])) \<rparr>])
        undecryptable)
     (JNum 10000) ''w1'' JUndefined JUndefined []
   = (Inr (record_with ''receiving'' (JStr [])),
      [Fetch ''https://voltageapi.com/v1/organizations/org/environments/env/payments''
         \<lparr> http_method = POST,
           headers = [(''Content-Type'', ''application/json''), (''x-api-key'', ''key'')],
           body = Some (Json (JObj
             [(''id'', JStr ''68d00852-8dd8-4c71-94d2-91c84695da78''),
              (''amount_msats'', JNum 10000),
              (''currency'', JStr ''btc''),
              (''payment_kind'', JStr ''bolt11''),
              (''wallet_id'', JStr ''w1'')])) \<rparr>])
   \<and> \<not> has_invoice (record_with ''receiving'' (JStr []))"
proof -
  let ?resp = "\<lparr> status = 200, bodyText = Json (record_with ''receiving'' (JStr [])) \<rparr>"
  let ?rt = "demo_runtime (scripted [Responded ?resp]) undecryptable"
  have p: "\<forall>request. fetch ?rt (fetches []) (getPaymentUrl demo_client None) request = Responded ?resp"
    by (simp add: demo_runtime_def scripted_def trace_simps)
  have o: "ok ?resp" "status ?resp \<noteq> 202" by (simp_all add: ok_def)
  from createPaymentRequest_immediate [OF p o, of "JNum 10000" "''w1''" JUndefined JUndefined]
  obtain post where r: "createPaymentRequest demo_client ?rt (JNum 10000) ''w1'' JUndefined JUndefined []
      = (Inr (record_with ''receiving'' (JStr [])), [Fetch (getPaymentUrl demo_client None) post])"
    by auto
  have e: "createPaymentRequest demo_client ?rt (JNum 10000) ''w1'' JUndefined JUndefined []
      = (Inr (record_with ''receiving'' (JStr [])),
      [Fetch ''https://voltageapi.com/v1/organizations/org/environments/env/payments''
         \<lparr> http_method = POST,
           headers = [(''Content-Type'', ''application/json''), (''x-api-key'', ''key'')],
           body = Some (Json (JObj
             [(''id'', JStr ''68d00852-8dd8-4c71-94d2-91c84695da78''),
              (''amount_msats'', JNum 10000),
              (''currency'', JStr ''btc''),
              (''payment_kind'', JStr ''bolt11''),
              (''wallet_id'', JStr ''w1'')])) \<rparr>])"
    using r
    by (simp add: createPaymentRequest_def fetchWithRetry.simps Let_def demo_client_simps
          demo_runtime_def scripted_def trace_simps ok_def json_def JSON_stringify_def)
  show ?thesis
    using e by (simp add: has_invoice_def data_prop_def record_with_def)
qed

text \<open>
  Claim C1 says that exactly one response is published for an inbound request that decrypts
  and parses, never both a result and an error and never none. At a \<open>get_balance\<close> request
  whose result event the relay rejects, the rejection of the awaited \<open>sendResponse\<close> reaches
  the \<open>catch\<close> block of \<open>handleRequest\<close>, which answers it: the result event and an
  \<open>INTERNAL\<close> error event are both handed to the relay. At a relay that rejects every
  event three events are handed to it, none is accepted, and the handler's promise rejects.
\<close>

theorem result_and_error_both_handed:
  "nip04_decrypt
     (scripted_relay [Some (PublishError ''rate-limited'')]
        (demo_runtime (scripted [])
           (inbox_of (JObj [(''method'', JStr ''get_balance''), (''params'', JObj [])]))))
     (secret (config demo_service)) (pubkey (demo_event ''request''))
     (content (demo_event ''request''))
   = Some (Json (JObj [(''method'', JStr ''get_balance''), (''params'', JObj [])]))
   \<and> JSON_parse (Json (JObj [(''method'', JStr ''get_balance''), (''params'', JObj [])]))
   = Inr (JObj [(''method'', JStr ''get_balance''), (''params'', JObj [])])
   \<and> onevent
     (fst (init demo_service
        (scripted_relay [Some (PublishError ''rate-limited'')]
           (demo_runtime (scripted [])
              (inbox_of (JObj [(''method'', JStr ''get_balance''), (''params'', JObj [])]))))
        []))
     (scripted_relay [Some (PublishError ''rate-limited'')]
        (demo_runtime (scripted [])
           (inbox_of (JObj [(''method'', JStr ''get_balance''), (''params'', JObj [])]))))
     (demo_event ''request'') []
   = (Inr (),
      [Publish \<lparr> kind = 23195, content = ''result'',
         tags = [[''p'', ''client-pubkey''], [''e'', ''request-id'']],
         created_at = 1741968491, pubkey = ''service-pubkey'', event_id = ''response-id'',
         sig = ''signature'' \<rparr> False,
       Publish \<lparr> kind = 23195, content = ''error INTERNAL'',
         tags = [[''p'', ''client-pubkey''], [''e'', ''request-id'']],
         created_at = 1741968491, pubkey = ''service-pubkey'', event_id = ''response-id'',
         sig = ''signature'' \<rparr> True])
   \<and> onevent
     (fst (init demo_service
        (scripted_relay [Some (PublishError ''rate-limited''), Some (PublishError ''rate-limited''),
                         Some (PublishError ''rate-limited'')]
           (demo_runtime (scripted [])
              (inbox_of (JObj [(''method'', JStr ''get_balance''), (''params'', JObj [])]))))
        []))
     (scripted_relay [Some (PublishError ''rate-limited''), Some (PublishError ''rate-limited''),
                      Some (PublishError ''rate-limited'')]
        (demo_runtime (scripted [])
           (inbox_of (JObj [(''method'', JStr ''get_balance''), (''params'', JObj [])]))))
     (demo_event ''request'') []
   = (Inl (PublishError ''rate-limited''),
      [Publish \<lparr> kind = 23195, content = ''result'',
         tags = [[''p'', ''client-pubkey''], [''e'', ''request-id'']],
         created_at = 1741968491, pubkey = ''service-pubkey'', event_id = ''response-id'',
         sig = ''signature'' \<rparr> False,
       Publish \<lparr> kind = 23195, content = ''error INTERNAL'',
         tags = [[''p'', ''client-pubkey''], [''e'', ''request-id'']],
         created_at = 1741968491, pubkey = ''service-pubkey'', event_id = ''response-id'',
         sig = ''signature'' \<rparr> False,
       Publish \<lparr> kind = 23195, content = ''error INTERNAL'',
         tags = [[''p'', ''client-pubkey''], [''e'', ''request-id'']],
         created_at = 1741968491, pubkey = ''service-pubkey'', event_id = ''response-id'',
         sig = ''signature'' \<rparr> False])"
  by (simp add: gateway_eval)

text \<open>
  Claim C1, amended. For every inbound request event whose content decrypts and parses,
  handled by the gateway that \<open>init\<close> has started, whatever the handler, the backend, the
  encryption and the relay do: at most three events are handed to the relay, each of them
  a response event tagged \<open>p\<close> with the sender's public key and \<open>e\<close> with the identifier
  of the inbound event, and the relay has accepted exactly one of them when the handler
  resolves and none when its promise rejects. When \<open>nip04.encrypt\<close> works for the sender
  and the relay accepts the next event handed to it, exactly one event is handed to the
  relay and accepted: the encryption to the sender of either a result envelope or an error
  envelope, never both.
\<close>

theorem onevent_answers_once:
  assumes "nip04_decrypt rt (secret (config g)) (pubkey event) (content event) = Some decrypted"
    and "JSON_parse decrypted = Inr request"
  shows "(\<exists>evs. snd (onevent (fst (init g rt tr0)) rt event tr) = tr @ evs
            \<and> answered 3 event (fst (onevent (fst (init g rt tr0)) rt event tr) = Inr ()) evs)
       \<and> ((\<forall>plaintext. \<exists>c. nip04_encrypt rt (secret (config g)) (pubkey event) plaintext = Inr c)
          \<and> (\<forall>ev. relay_publish rt (length (handed tr)) ev = None)
          \<longrightarrow> (\<exists>response doc.
                 fst (onevent (fst (init g rt tr0)) rt event tr) = Inr ()
                 \<and> handed (snd (onevent (fst (init g rt tr0)) rt event tr))
                     = handed tr @ [response]
                 \<and> acknowledged (snd (onevent (fst (init g rt tr0)) rt event tr))
                     = acknowledged tr @ [response]
                 \<and> response_to rt g event response doc
                 \<and> is_result_envelope doc \<noteq> is_error_envelope doc))"
proof (intro conjI impI)
  define g' where "g' = fst (init g rt tr0)"
  have r: "relay g' = Some (relayUrl (config g))" and c: "config g' = config g"
    by (simp_all add: g'_def init_service)
  obtain hr tr1 where h: "handleRequest g' rt event request tr = (hr, tr1)"
    by (cases "handleRequest g' rt event request tr")
  from handleRequest_attempts [OF r, of rt event request tr] h
  obtain evs1 where evs1: "tr1 = tr @ evs1" "answered 2 event (hr = Inr ()) evs1" by auto
  show "\<exists>evs. snd (onevent (fst (init g rt tr0)) rt event tr) = tr @ evs
          \<and> answered 3 event (fst (onevent (fst (init g rt tr0)) rt event tr) = Inr ()) evs"
    unfolding g'_def [symmetric]
  proof (cases hr)
    case (Inr u)
    then have o: "onevent g' rt event tr = (Inr (), tr1)"
      using assms h by (simp add: onevent_def c)
    from evs1(2) Inr have "answered 3 event True evs1" by (simp add: answered_more)
    then show "\<exists>evs. snd (onevent g' rt event tr) = tr @ evs
                 \<and> answered 3 event (fst (onevent g' rt event tr) = Inr ()) evs"
      unfolding o using evs1(1) by (intro exI [of _ evs1]) simp
  next
    case (Inl e)
    then have o: "onevent g' rt event tr
                    = sendError g' rt event INTERNAL ''Internal error processing request'' tr1"
      using assms h by (simp add: onevent_def c)
    from evs1(2) Inl have a1: "answered 2 event False evs1" by simp
    from sendError_attempt [OF r, of rt event INTERNAL "''Internal error processing request''" tr1]
    obtain evs2 where evs2:
      "snd (sendError g' rt event INTERNAL ''Internal error processing request'' tr1) = tr1 @ evs2"
      "answered 1 event
         (fst (sendError g' rt event INTERNAL ''Internal error processing request'' tr1) = Inr ())
         evs2"
      by blast
    from answered_after_two [OF a1 evs2(2)]
    show "\<exists>evs. snd (onevent g' rt event tr) = tr @ evs
            \<and> answered 3 event (fst (onevent g' rt event tr) = Inr ()) evs"
      unfolding o using evs2(1) evs1(1) by (intro exI [of _ "evs1 @ evs2"]) simp
  qed
next
  assume p: "(\<forall>plaintext. \<exists>c. nip04_encrypt rt (secret (config g)) (pubkey event) plaintext = Inr c)
             \<and> (\<forall>ev. relay_publish rt (length (handed tr)) ev = None)"
  define g' where "g' = fst (init g rt tr0)"
  have r: "relay g' = Some (relayUrl (config g))" and c: "config g' = config g"
    by (simp_all add: g'_def init_service)
  have rt: "response_to rt g' event response doc = response_to rt g event response doc"
    for response doc by (simp add: response_to_def c)
  from p have e: "\<forall>plaintext. \<exists>c. nip04_encrypt rt (secret (config g')) (pubkey event) plaintext = Inr c"
    and n: "\<forall>ev. relay_publish rt (length (handed tr)) ev = None"
    by (simp_all add: c)
  from handleRequest_accepted [OF r e n, of request]
  show "\<exists>response doc.
          fst (onevent (fst (init g rt tr0)) rt event tr) = Inr ()
          \<and> handed (snd (onevent (fst (init g rt tr0)) rt event tr)) = handed tr @ [response]
          \<and> acknowledged (snd (onevent (fst (init g rt tr0)) rt event tr))
              = acknowledged tr @ [response]
          \<and> response_to rt g event response doc
          \<and> is_result_envelope doc \<noteq> is_error_envelope doc"
    unfolding g'_def [symmetric]
  proof
    assume "\<exists>e. handleRequest g' rt event request tr = (Inl e, tr)"
    then obtain x where h: "handleRequest g' rt event request tr = (Inl x, tr)" by blast
    from sendError_accepted [OF r e n, of INTERNAL "''Internal error processing request''"]
    obtain response doc where
      "sendError g' rt event INTERNAL ''Internal error processing request'' tr
         = (Inr (), tr @ [Publish response True])"
      "response_to rt g' event response doc" "is_error_envelope doc" "\<not> is_result_envelope doc"
      by blast
    then show "\<exists>response doc.
          fst (onevent g' rt event tr) = Inr ()
          \<and> handed (snd (onevent g' rt event tr)) = handed tr @ [response]
          \<and> acknowledged (snd (onevent g' rt event tr)) = acknowledged tr @ [response]
          \<and> response_to rt g event response doc
          \<and> is_result_envelope doc \<noteq> is_error_envelope doc"
      using assms h
      by (intro exI [of _ response] exI [of _ doc]) (simp add: onevent_def c rt trace_simps)
  next
    assume "\<exists>tr' response doc. handleRequest g' rt event request tr = (Inr (), tr')
             \<and> handed tr' = handed tr @ [response]
             \<and> acknowledged tr' = acknowledged tr @ [response]
             \<and> response_to rt g' event response doc
             \<and> is_result_envelope doc \<noteq> is_error_envelope doc"
    then obtain tr' response doc where
      "handleRequest g' rt event request tr = (Inr (), tr')"
      "handed tr' = handed tr @ [response]"
      "acknowledged tr' = acknowledged tr @ [response]"
      "response_to rt g' event response doc"
      "is_result_envelope doc \<noteq> is_error_envelope doc"
      by blast
    then show "\<exists>response doc.
          fst (onevent g' rt event tr) = Inr ()
          \<and> handed (snd (onevent g' rt event tr)) = handed tr @ [response]
          \<and> acknowledged (snd (onevent g' rt event tr)) = acknowledged tr @ [response]
          \<and> response_to rt g event response doc
          \<and> is_result_envelope doc \<noteq> is_error_envelope doc"
      using assms
      by (intro exI [of _ response] exI [of _ doc]) (simp add: onevent_def c rt)
  qed
qed

theorem onevent_answers_once_witness:
  "onevent (fst (init demo_service
       (demo_runtime (scripted [])
          (inbox_of (JObj [(''method'', JStr ''get_balance''), (''params'', JObj [])]))) []))
     (demo_runtime (scripted [])
        (inbox_of (JObj [(''method'', JStr ''get_balance''), (''params'', JObj [])])))
     (demo_event ''request'') []
   = (Inr (),
      [Publish \<lparr> kind = 23195, content = ''result'',
         tags = [[''p'', ''client-pubkey''], [''e'', ''request-id'']],
         created_at = 1741968491, pubkey = ''service-pubkey'', event_id = ''response-id'',
         sig = ''signature'' \<rparr> True])
   \<and> handed (snd (onevent (fst (init demo_service
       (demo_runtime (scripted [])
          (inbox_of (JObj [(''method'', JStr ''pay_invoice''),
                           (''params'', JObj [(''invoice'', JStr ''lnbc1pvjluez'')])]))) []))
     (demo_runtime (scripted [])
        (inbox_of (JObj [(''method'', JStr ''pay_invoice''),
                         (''params'', JObj [(''invoice'', JStr ''lnbc1pvjluez'')])])))
     (demo_event ''request'') []))
   = [\<lparr> kind = 23195, content = ''error INTERNAL'',
        tags = [[''p'', ''client-pubkey''], [''e'', ''request-id'']],
        created_at = 1741968491, pubkey = ''service-pubkey'', event_id = ''response-id'',
        sig = ''signature'' \<rparr>]"
proof -
  let ?request = "JObj [(''method'', JStr ''get_balance''), (''params'', JObj [])]"
  let ?rt = "demo_runtime (scripted []) (inbox_of ?request)"
  let ?pay = "JObj [(''method'', JStr ''pay_invoice''),
                    (''params'', JObj [(''invoice'', JStr ''lnbc1pvjluez'')])]"
  let ?down = "demo_runtime (scripted []) (inbox_of ?pay)"
  have d: "nip04_decrypt ?rt (secret (config demo_service)) (pubkey (demo_event ''request''))
             (content (demo_event ''request'')) = Some (Json ?request)"
    and d': "nip04_decrypt ?down (secret (config demo_service)) (pubkey (demo_event ''request''))
             (content (demo_event ''request'')) = Some (Json ?pay)"
    by (simp_all add: demo_runtime_def inbox_of_def)
  have p: "JSON_parse (Json ?request) = Inr ?request" and p': "JSON_parse (Json ?pay) = Inr ?pay"
    by simp_all
  have e: "(\<forall>plaintext. \<exists>c. nip04_encrypt ?rt (secret (config demo_service))
                (pubkey (demo_event ''request'')) plaintext = Inr c)
           \<and> (\<forall>ev. relay_publish ?rt (length (handed [])) ev = None)"
    and e': "(\<forall>plaintext. \<exists>c. nip04_encrypt ?down (secret (config demo_service))
                (pubkey (demo_event ''request'')) plaintext = Inr c)
           \<and> (\<forall>ev. relay_publish ?down (length (handed [])) ev = None)"
    by (simp_all add: demo_runtime_def)
  from onevent_answers_once [OF d p, of "[]" "[]"] e
  obtain response doc where
    "fst (onevent (fst (init demo_service ?rt [])) ?rt (demo_event ''request'') []) = Inr ()"
    "handed (snd (onevent (fst (init demo_service ?rt [])) ?rt (demo_event ''request'') []))
       = handed [] @ [response]"
    by blast
  then have one: "onevent (fst (init demo_service ?rt [])) ?rt (demo_event ''request'') []
    = (Inr (),
      [Publish \<lparr> kind = 23195, content = ''result'',
         tags = [[''p'', ''client-pubkey''], [''e'', ''request-id'']],
         created_at = 1741968491, pubkey = ''service-pubkey'', event_id = ''response-id'',
         sig = ''signature'' \<rparr> True])"
    by (simp add: gateway_eval)
  from onevent_answers_once [OF d' p', of "[]" "[]"] e'
  obtain response' doc' where
    "handed (snd (onevent (fst (init demo_service ?down [])) ?down (demo_event ''request'') []))
       = handed [] @ [response']"
    "response_to ?down demo_service (demo_event ''request'') response' doc'"
    by blast
  then have two: "handed (snd (onevent (fst (init demo_service ?down [])) ?down
                                 (demo_event ''request'') []))
    = [\<lparr> kind = 23195, content = ''error INTERNAL'',
        tags = [[''p'', ''client-pubkey''], [''e'', ''request-id'']],
        created_at = 1741968491, pubkey = ''service-pubkey'', event_id = ''response-id'',
        sig = ''signature'' \<rparr>]"
    by (simp add: gateway_eval sendPayment_def fetchWithRetry.simps demo_client_simps
          scripted_def trace_simps)
  show ?thesis using one two by simp
qed

text \<open>
  Claim C2 says that an inbound event whose decryption fails is only logged and gets no
  response. At an event whose content does not decrypt the handler publishes a response
  event tagged for the sender and the inbound event, with the error code \<open>INTERNAL\<close>.
\<close>

theorem decrypt_failure_is_answered:
  "nip04_decrypt (demo_runtime (scripted []) undecryptable) (secret (config demo_service))
     (pubkey (demo_event ''garbled'')) (content (demo_event ''garbled'')) = None
   \<and> onevent (fst (init demo_service (demo_runtime (scripted []) undecryptable) []))
        (demo_runtime (scripted []) undecryptable) (demo_event ''garbled'') []
     = (Inr (),
        [Publish \<lparr> kind = 23195, content = ''error INTERNAL'',
           tags = [[''p'', ''client-pubkey''], [''e'', ''request-id'']],
           created_at = 1741968491, pubkey = ''service-pubkey'', event_id = ''response-id'',
           sig = ''signature'' \<rparr> True])"
  by (simp add: gateway_eval)

text \<open>
  Claim C2, amended. For every inbound event whose decryption fails or whose plaintext
  does not parse as JSON, the handler makes no HTTP request and one attempt to answer: at
  most one event is handed to the relay, a response event tagged \<open>p\<close> with the sender's
  public key and \<open>e\<close> with the identifier of the inbound event, and the handler resolves
  exactly when the relay has accepted it. When \<open>nip04.encrypt\<close> works for the sender and
  the relay accepts the event, the only effect is publishing that response, whose envelope
  is an error with the code \<open>INTERNAL\<close> and the message
  \<open>Internal error processing request\<close>; the handler resolves, so the service goes on to
  serve the events delivered after it.
\<close>

theorem decrypt_failure_answered_internal:
  assumes "nip04_decrypt rt (secret (config g)) (pubkey event) (content event) = None
           \<or> (\<exists>decrypted e.
                 nip04_decrypt rt (secret (config g)) (pubkey event) (content event) = Some decrypted
                 \<and> JSON_parse decrypted = Inl e)"
  shows "(\<exists>evs. snd (onevent (fst (init g rt tr0)) rt event tr) = tr @ evs
            \<and> fetches evs = 0 \<and> sleeps evs = 0
            \<and> answered 1 event (fst (onevent (fst (init g rt tr0)) rt event tr) = Inr ()) evs)
       \<and> ((\<forall>plaintext. \<exists>c. nip04_encrypt rt (secret (config g)) (pubkey event) plaintext = Inr c)
          \<and> (\<forall>ev. relay_publish rt (length (handed tr)) ev = None)
          \<longrightarrow> (\<exists>response doc.
                 onevent (fst (init g rt tr0)) rt event tr = (Inr (), tr @ [Publish response True])
                 \<and> response_to rt g event response doc
                 \<and> is_error_envelope doc
                 \<and> error_code doc = JStr ''INTERNAL''
                 \<and> error_message doc = JStr ''Internal error processing request''
                 \<and> serve (fst (init g rt tr0)) rt (event # events) tr
                     = serve (fst (init g rt tr0)) rt events (tr @ [Publish response True])))"
proof -
  define g' where "g' = fst (init g rt tr0)"
  have r: "relay g' = Some (relayUrl (config g))" and c: "config g' = config g"
    by (simp_all add: g'_def init_service)
  have rt: "response_to rt g' event response doc = response_to rt g event response doc"
    for response doc by (simp add: response_to_def c)
  have o: "onevent g' rt event tr
             = sendError g' rt event INTERNAL ''Internal error processing request'' tr"
    using assms by (auto simp: onevent_def c)
  have general: "\<exists>evs. snd (onevent g' rt event tr) = tr @ evs
            \<and> fetches evs = 0 \<and> sleeps evs = 0
            \<and> answered 1 event (fst (onevent g' rt event tr) = Inr ()) evs"
    unfolding o
    by (rule sendError_attempt [OF r])
  have exact: "\<exists>response doc.
                 onevent g' rt event tr = (Inr (), tr @ [Publish response True])
                 \<and> response_to rt g event response doc
                 \<and> is_error_envelope doc
                 \<and> error_code doc = JStr ''INTERNAL''
                 \<and> error_message doc = JStr ''Internal error processing request''
                 \<and> serve g' rt (event # events) tr = serve g' rt events (tr @ [Publish response True])"
    if p: "(\<forall>plaintext. \<exists>c. nip04_encrypt rt (secret (config g)) (pubkey event) plaintext = Inr c)
           \<and> (\<forall>ev. relay_publish rt (length (handed tr)) ev = None)"
  proof -
    from p have e: "\<forall>plaintext. \<exists>c. nip04_encrypt rt (secret (config g')) (pubkey event) plaintext = Inr c"
      and n: "\<forall>ev. relay_publish rt (length (handed tr)) ev = None"
      by (simp_all add: c)
    from sendError_accepted [OF r e n, of INTERNAL "''Internal error processing request''"]
    obtain response doc where
      "sendError g' rt event INTERNAL ''Internal error processing request'' tr
         = (Inr (), tr @ [Publish response True])"
      "response_to rt g' event response doc" "is_error_envelope doc"
      "error_code doc = JStr (code_string INTERNAL)"
      "error_message doc = JStr ''Internal error processing request''"
      by blast
    then show ?thesis
      unfolding o by (intro exI [of _ response] exI [of _ doc]) (simp add: rt o)
  qed
  from general exact show ?thesis
    unfolding g'_def by blast
qed

theorem decrypt_failure_answered_internal_witness:
  "serve (fst (init demo_service
       (demo_runtime (scripted [])
          (\<lambda>s. if s = ''garbled'' then None
               else if s = ''not json'' then Some (NotJson ''{'')
               else Some (Json (JObj [(''method'', JStr ''get_balance''), (''params'', JObj [])]))))
       []))
     (demo_runtime (scripted [])
        (\<lambda>s. if s = ''garbled'' then None
             else if s = ''not json'' then Some (NotJson ''{'')
             else Some (Json (JObj [(''method'', JStr ''get_balance''), (''params'', JObj [])]))))
     [demo_event ''garbled'', demo_event ''not json'', demo_event ''request''] []
   = (Inr (),
      [Publish \<lparr> kind = 23195, content = ''error INTERNAL'',
        tags = [[''p'', ''client-pubkey''], [''e'', ''request-id'']],
        created_at = 1741968491, pubkey = ''service-pubkey'', event_id = ''response-id'',
        sig = ''signature'' \<rparr> True,
       Publish \<lparr> kind = 23195, content = ''error INTERNAL'',
        tags = [[''p'', ''client-pubkey''], [''e'', ''request-id'']],
        created_at = 1741968491, pubkey = ''service-pubkey'', event_id = ''response-id'',
        sig = ''signature'' \<rparr> True,
       Publish \<lparr> kind = 23195, content = ''result'',
        tags = [[''p'', ''client-pubkey''], [''e'', ''request-id'']],
        created_at = 1741968491, pubkey = ''service-pubkey'', event_id = ''response-id'',
        sig = ''signature'' \<rparr> True])"
proof -
  let ?rt = "demo_runtime (scripted [])
        (\<lambda>s. if s = ''garbled'' then None
             else if s = ''not json'' then Some (NotJson ''{'')
             else Some (Json (JObj [(''method'', JStr ''get_balance''), (''params'', JObj [])])))"
  let ?g = "fst (init demo_service ?rt [])"
  have d: "nip04_decrypt ?rt (secret (config demo_service)) (pubkey (demo_event ''garbled''))
             (content (demo_event ''garbled'')) = None
           \<or> (\<exists>decrypted e.
                 nip04_decrypt ?rt (secret (config demo_service)) (pubkey (demo_event ''garbled''))
                   (content (demo_event ''garbled'')) = Some decrypted
                 \<and> JSON_parse decrypted = Inl e)"
    by (simp add: demo_runtime_def demo_event_def)
  have e0: "(\<forall>plaintext. \<exists>c. nip04_encrypt ?rt (secret (config demo_service))
                (pubkey (demo_event ''garbled'')) plaintext = Inr c)
           \<and> (\<forall>ev. relay_publish ?rt (length (handed [])) ev = None)"
    by (simp add: demo_runtime_def)
  from decrypt_failure_answered_internal [OF d, of "[]" "[]"
         "[demo_event ''not json'', demo_event ''request'']"] e0
  obtain r1 where s1:
    "serve ?g ?rt [demo_event ''garbled'', demo_event ''not json'', demo_event ''request''] []
       = serve ?g ?rt [demo_event ''not json'', demo_event ''request''] ([] @ [Publish r1 True])"
    "onevent ?g ?rt (demo_event ''garbled'') [] = (Inr (), [] @ [Publish r1 True])"
    by blast
  have d2: "nip04_decrypt ?rt (secret (config demo_service)) (pubkey (demo_event ''not json''))
             (content (demo_event ''not json'')) = None
           \<or> (\<exists>decrypted e.
                 nip04_decrypt ?rt (secret (config demo_service)) (pubkey (demo_event ''not json''))
                   (content (demo_event ''not json'')) = Some decrypted
                 \<and> JSON_parse decrypted = Inl e)"
    by (simp add: demo_runtime_def demo_event_def)
  have e2: "(\<forall>plaintext. \<exists>c. nip04_encrypt ?rt (secret (config demo_service))
                (pubkey (demo_event ''not json'')) plaintext = Inr c)
           \<and> (\<forall>ev. relay_publish ?rt (length (handed [Publish r1 True])) ev = None)"
    by (simp add: demo_runtime_def)
  from decrypt_failure_answered_internal [OF d2, of "[]" "[Publish r1 True]"
         "[demo_event ''request'']"] e2
  obtain r2 where s2:
    "serve ?g ?rt [demo_event ''not json'', demo_event ''request''] [Publish r1 True]
       = serve ?g ?rt [demo_event ''request''] ([Publish r1 True] @ [Publish r2 True])"
    by blast
  from s1 s2 show ?thesis
    by (simp add: gateway_eval)
qed

text \<open>
  Claim C6, at a \<open>pay_invoice\<close> request that carries no amount. \<open>handlePayInvoice\<close>
  passes \<open>params.amount || 0\<close>, that is \<open>0\<close>, and the creation body \<open>sendPayment\<close>
  serialises carries \<open>amount_msats: 0\<close>: only the absent \<open>max_fee_msats\<close> is left out.
  The same body results from calling \<open>sendPayment\<close> with the amount \<open>0\<close> directly. An
  amount greater than zero is written as well; the field is left out only when the caller
  leaves the amount \<open>undefined\<close>, as the command-line caller does for an amount of zero.
\<close>

theorem pay_invoice_sends_zero_amount:
  "snd (handlePayInvoice (fst (init demo_service
          (demo_runtime (scripted
             [Responded \<lparr> status = 200,
                          bodyText = Json (record_with ''sending'' (JStr ''lnbc1pvjluez'')) \<rparr>])
             undecryptable) []))
        (demo_runtime (scripted
           [Responded \<lparr> status = 200,
                        bodyText = Json (record_with ''sending'' (JStr ''lnbc1pvjluez'')) \<rparr>])
           undecryptable)
        (JObj [(''invoice'', JStr ''lnbc1pvjluez'')]) [])
   = [Fetch ''https://voltageapi.com/v1/organizations/org/environments/env/payments''
        \<lparr> http_method = POST,
          headers = [(''Content-Type'', ''application/json''), (''x-api-key'', ''key'')],
          body = Some (Json (JObj
            [(''id'', JStr ''68d00852-8dd8-4c71-94d2-91c84695da78''),
             (''wallet_id'', JStr ''w1''),
             (''currency'', JStr ''btc''),
             (''type'', JStr ''bolt11''),
             (''data'', JObj [(''amount_msats'', JNum 0),
                              (''payment_request'', JStr ''lnbc1pvjluez'')])])) \<rparr>]
   \<and> snd (sendPayment demo_client
        (demo_runtime (scripted
           [Responded \<lparr> status = 200,
                        bodyText = Json (record_with ''sending'' (JStr ''lnbc1pvjluez'')) \<rparr>])
           undecryptable)
        ''w1'' (JStr ''lnbc1pvjluez'') (JNum 0) JUndefined [])
   = [Fetch ''https://voltageapi.com/v1/organizations/org/environments/env/payments''
        \<lparr> http_method = POST,
          headers = [(''Content-Type'', ''application/json''), (''x-api-key'', ''key'')],
          body = Some (Json (JObj
            [(''id'', JStr ''68d00852-8dd8-4c71-94d2-91c84695da78''),
             (''wallet_id'', JStr ''w1''),
             (''currency'', JStr ''btc''),
             (''type'', JStr ''bolt11''),
             (''data'', JObj [(''amount_msats'', JNum 0),
                              (''payment_request'', JStr ''lnbc1pvjluez'')])])) \<rparr>]
   \<and> snd (sendPayment demo_client
        (demo_runtime (scripted
           [Responded \<lparr> status = 200,
                        bodyText = Json (record_with ''sending'' (JStr ''lnbc1pvjluez'')) \<rparr>])
           undecryptable)
        ''w1'' (JStr ''lnbc1pvjluez'') (JNum 150000) JUndefined [])
   = [Fetch ''https://voltageapi.com/v1/organizations/org/environments/env/payments''
        \<lparr> http_method = POST,
          headers = [(''Content-Type'', ''application/json''), (''x-api-key'', ''key'')],
          body = Some (Json (JObj
            [(''id'', JStr ''68d00852-8dd8-4c71-94d2-91c84695da78''),
             (''wallet_id'', JStr ''w1''),
             (''currency'', JStr ''btc''),
             (''type'', JStr ''bolt11''),
             (''data'', JObj [(''amount_msats'', JNum 150000),
                              (''payment_request'', JStr ''lnbc1pvjluez'')])])) \<rparr>]
   \<and> snd (sendPayment demo_client
        (demo_runtime (scripted
           [Responded \<lparr> status = 200,
                        bodyText = Json (record_with ''sending'' (JStr ''lnbc1pvjluez'')) \<rparr>])
           undecryptable)
        ''w1'' (JStr ''lnbc1pvjluez'') JUndefined JUndefined [])
   = [Fetch ''https://voltageapi.com/v1/organizations/org/environments/env/payments''
        \<lparr> http_method = POST,
          headers = [(''Content-Type'', ''application/json''), (''x-api-key'', ''key'')],
          body = Some (Json (JObj
            [(''id'', JStr ''68d00852-8dd8-4c71-94d2-91c84695da78''),
             (''wallet_id'', JStr ''w1''),
             (''currency'', JStr ''btc''),
             (''type'', JStr ''bolt11''),
             (''data'', JObj [(''payment_request'', JStr ''lnbc1pvjluez'')])])) \<rparr>]"
  by (simp add: gateway_eval sendPayment_def fetchWithRetry.simps demo_client_simps
        scripted_def trace_simps ok_def json_def data_prop_def record_with_def)

text \<open>
  Claim C7 says that every decrypted request whose method is outside the supported set is
  answered \<open>NOT_IMPLEMENTED\<close>. At the request \<open>{"method": {"toString": 1}}\<close> the method is
  outside the set, building the message \<open>Method ... not supported\<close> throws a \<open>TypeError\<close>
  before the \<open>try\<close> of \<open>handleRequest\<close>, and the handler answers \<open>INTERNAL\<close>.
\<close>

theorem method_object_answered_internal:
  "nip04_decrypt
     (demo_runtime (scripted [])
        (inbox_of (JObj [(''method'', JObj [(''toString'', JNum 1)])])))
     (secret (config demo_service)) (pubkey (demo_event ''request''))
     (content (demo_event ''request''))
   = Some (Json (JObj [(''method'', JObj [(''toString'', JNum 1)])]))
   \<and> JSON_parse (Json (JObj [(''method'', JObj [(''toString'', JNum 1)])]))
   = Inr (JObj [(''method'', JObj [(''toString'', JNum 1)])])
   \<and> getProp (JObj [(''method'', JObj [(''toString'', JNum 1)])]) ''method''
   = Inr (JObj [(''toString'', JNum 1)])
   \<and> JObj [(''toString'', JNum 1)]
       \<notin> {JStr ''pay_invoice'', JStr ''make_invoice'', JStr ''get_balance'', JStr ''get_info''}
   \<and> onevent
     (fst (init demo_service
        (demo_runtime (scripted [])
           (inbox_of (JObj [(''method'', JObj [(''toString'', JNum 1)])]))) []))
     (demo_runtime (scripted [])
        (inbox_of (JObj [(''method'', JObj [(''toString'', JNum 1)])])))
     (demo_event ''request'') []
   = (Inr (),
      [Publish \<lparr> kind = 23195, content = ''error INTERNAL'',
         tags = [[''p'', ''client-pubkey''], [''e'', ''request-id'']],
         created_at = 1741968491, pubkey = ''service-pubkey'', event_id = ''response-id'',
         sig = ''signature'' \<rparr> True])"
  by (simp add: gateway_eval)

text \<open>
  Claim C7, amended. For every decrypted request whose method is not one of \<open>pay_invoice\<close>,
  \<open>make_invoice\<close>, \<open>get_balance\<close>, \<open>get_info\<close>, handling the event makes no HTTP request
  and awaits no delay, so no operation of the payment client has run (each of them starts
  with a request); at most two events are handed to the relay, each a response event
  tagged for the sender and the inbound event. When \<open>nip04.encrypt\<close> works for the sender
  and the relay accepts the event, the only effect is publishing one response whose
  envelope is an error: with the code \<open>NOT_IMPLEMENTED\<close> and the message
  \<open>Method ... not supported\<close> when the method converts to a string, with the code
  \<open>INTERNAL\<close> when the conversion throws.
\<close>

theorem unsupported_method_not_implemented:
  assumes "nip04_decrypt rt (secret (config g)) (pubkey event) (content event) = Some decrypted"
    and "JSON_parse decrypted = Inr request"
    and "getProp request ''method'' = Inr method"
    and "method \<notin> {JStr ''pay_invoice'', JStr ''make_invoice'', JStr ''get_balance'',
                    JStr ''get_info''}"
  shows "(\<exists>evs. snd (onevent (fst (init g rt tr0)) rt event tr) = tr @ evs
            \<and> fetches evs = 0 \<and> sleeps evs = 0
            \<and> answered 2 event (fst (onevent (fst (init g rt tr0)) rt event tr) = Inr ()) evs)
       \<and> ((\<forall>plaintext. \<exists>c. nip04_encrypt rt (secret (config g)) (pubkey event) plaintext = Inr c)
          \<and> (\<forall>ev. relay_publish rt (length (handed tr)) ev = None)
          \<longrightarrow> (\<exists>response doc.
                 onevent (fst (init g rt tr0)) rt event tr = (Inr (), tr @ [Publish response True])
                 \<and> response_to rt g event response doc
                 \<and> is_error_envelope doc
                 \<and> (case ToString rt method of
                       Inr m \<Rightarrow> error_code doc = JStr ''NOT_IMPLEMENTED''
                               \<and> error_message doc = JStr (''Method '' @ m @ '' not supported'')
                     | Inl e \<Rightarrow> error_code doc = JStr ''INTERNAL''
                               \<and> error_message doc = JStr ''Internal error processing request'')))"
proof -
  define g' where "g' = fst (init g rt tr0)"
  have r: "relay g' = Some (relayUrl (config g))" and c: "config g' = config g"
    by (simp_all add: g'_def init_service)
  have rt: "response_to rt g' event response doc = response_to rt g event response doc"
    for response doc by (simp add: response_to_def c)
  from assms(4) have u: "\<not> array_includes SUPPORTED_METHODS method"
    by (auto simp: array_includes_def SUPPORTED_METHODS_def)
  obtain hr tr1 where h: "handleRequest g' rt event request tr = (hr, tr1)"
    by (cases "handleRequest g' rt event request tr")
  from handleRequest_unsupported [OF r assms(3) u, of rt event tr] h
  obtain evs1 where evs1: "tr1 = tr @ evs1" "fetches evs1 = 0" "sleeps evs1 = 0"
    "answered 1 event (hr = Inr ()) evs1" by auto
  have general: "\<exists>evs. snd (onevent g' rt event tr) = tr @ evs
            \<and> fetches evs = 0 \<and> sleeps evs = 0
            \<and> answered 2 event (fst (onevent g' rt event tr) = Inr ()) evs"
  proof (cases hr)
    case (Inr x)
    then have o: "onevent g' rt event tr = (Inr (), tr1)"
      using assms(1,2) h by (simp add: onevent_def c)
    from evs1(4) Inr have "answered 2 event True evs1" by (simp add: answered_more)
    then show ?thesis
      unfolding o using evs1 by (intro exI [of _ evs1]) simp
  next
    case (Inl e)
    then have o: "onevent g' rt event tr
                    = sendError g' rt event INTERNAL ''Internal error processing request'' tr1"
      using assms(1,2) h by (simp add: onevent_def c)
    from evs1(4) Inl have a1: "answered 1 event False evs1" by simp
    from sendError_attempt [OF r, of rt event INTERNAL "''Internal error processing request''" tr1]
    obtain evs2 where evs2:
      "snd (sendError g' rt event INTERNAL ''Internal error processing request'' tr1) = tr1 @ evs2"
      "fetches evs2 = 0" "sleeps evs2 = 0"
      "answered 1 event
         (fst (sendError g' rt event INTERNAL ''Internal error processing request'' tr1) = Inr ())
         evs2"
      by blast
    from answered_after_one [OF a1 evs2(4)]
    show ?thesis
      unfolding o using evs2(1,2,3) evs1(1,2,3)
      by (intro exI [of _ "evs1 @ evs2"]) (simp add: trace_simps)
  qed
  have exact: "\<exists>response doc.
                 onevent g' rt event tr = (Inr (), tr @ [Publish response True])
                 \<and> response_to rt g event response doc
                 \<and> is_error_envelope doc
                 \<and> (case ToString rt method of
                       Inr m \<Rightarrow> error_code doc = JStr ''NOT_IMPLEMENTED''
                               \<and> error_message doc = JStr (''Method '' @ m @ '' not supported'')
                     | Inl e \<Rightarrow> error_code doc = JStr ''INTERNAL''
                               \<and> error_message doc = JStr ''Internal error processing request'')"
    if p: "(\<forall>plaintext. \<exists>c. nip04_encrypt rt (secret (config g)) (pubkey event) plaintext = Inr c)
           \<and> (\<forall>ev. relay_publish rt (length (handed tr)) ev = None)"
  proof -
    from p have e: "\<forall>plaintext. \<exists>c. nip04_encrypt rt (secret (config g')) (pubkey event) plaintext = Inr c"
      and n: "\<forall>ev. relay_publish rt (length (handed tr)) ev = None"
      by (simp_all add: c)
    show ?thesis
    proof (cases "ToString rt method")
      case (Inr m)
      from sendError_accepted [OF r e n, of NOT_IMPLEMENTED "''Method '' @ m @ '' not supported''"]
      obtain response doc where
        "sendError g' rt event NOT_IMPLEMENTED (''Method '' @ m @ '' not supported'') tr
           = (Inr (), tr @ [Publish response True])"
        "response_to rt g' event response doc" "is_error_envelope doc"
        "error_code doc = JStr (code_string NOT_IMPLEMENTED)"
        "error_message doc = JStr (''Method '' @ m @ '' not supported'')"
        by blast
      then show ?thesis
        using assms(1-3) u Inr
        by (intro exI [of _ response] exI [of _ doc])
           (simp add: onevent_def handleRequest_def c rt)
    next
      case (Inl x)
      from sendError_accepted [OF r e n, of INTERNAL "''Internal error processing request''"]
      obtain response doc where
        "sendError g' rt event INTERNAL ''Internal error processing request'' tr
           = (Inr (), tr @ [Publish response True])"
        "response_to rt g' event response doc" "is_error_envelope doc"
        "error_code doc = JStr (code_string INTERNAL)"
        "error_message doc = JStr ''Internal error processing request''"
        by blast
      then show ?thesis
        using assms(1-3) u Inl
        by (intro exI [of _ response] exI [of _ doc])
           (simp add: onevent_def handleRequest_def c rt)
    qed
  qed
  from general exact show ?thesis
    unfolding g'_def by blast
qed

theorem unsupported_method_not_implemented_witness:
  "onevent (fst (init demo_service
       (demo_runtime (scripted [])
          (inbox_of (JObj [(''method'', JStr ''get_budget''), (''params'', JObj [])]))) []))
     (demo_runtime (scripted [])
        (inbox_of (JObj [(''method'', JStr ''get_budget''), (''params'', JObj [])])))
     (demo_event ''request'') []
   = (Inr (),
      [Publish \<lparr> kind = 23195, content = ''error NOT_IMPLEMENTED'',
         tags = [[''p'', ''client-pubkey''], [''e'', ''request-id'']],
         created_at = 1741968491, pubkey = ''service-pubkey'', event_id = ''response-id'',
         sig = ''signature'' \<rparr> True])"
proof -
  let ?request = "JObj [(''method'', JStr ''get_budget''), (''params'', JObj [])]"
  let ?rt = "demo_runtime (scripted []) (inbox_of ?request)"
  have d: "nip04_decrypt ?rt (secret (config demo_service)) (pubkey (demo_event ''request''))
             (content (demo_event ''request'')) = Some (Json ?request)"
    by (simp add: demo_runtime_def inbox_of_def)
  have p: "JSON_parse (Json ?request) = Inr ?request" by simp
  have m: "getProp ?request ''method'' = Inr (JStr ''get_budget'')" by simp
  have n: "JStr ''get_budget'' \<notin> {JStr ''pay_invoice'', JStr ''make_invoice'',
             JStr ''get_balance'', JStr ''get_info''}" by simp
  have e: "(\<forall>plaintext. \<exists>c. nip04_encrypt ?rt (secret (config demo_service))
                (pubkey (demo_event ''request'')) plaintext = Inr c)
           \<and> (\<forall>ev. relay_publish ?rt (length (handed [])) ev = None)"
    by (simp add: demo_runtime_def)
  from unsupported_method_not_implemented [OF d p m n, of "[]" "[]"] e
  obtain response doc where
    "onevent (fst (init demo_service ?rt [])) ?rt (demo_event ''request'') []
       = (Inr (), [] @ [Publish response True])"
    by blast
  then show ?thesis
    by (simp add: gateway_eval)
qed

text \<open>
  Claim C8, at a \<open>pay_invoice\<close> request whose creation the backend accepts with \<open>202\<close>
  and whose record, fetched once, is still \<open>sending\<close>. \<open>handlePayInvoice\<close> succeeds
  with \<open>preimage\<close> and \<open>fees_paid\<close> read off that record (its invoice text and its
  amount) after a single fetch by id; the record is not in a terminal state.
\<close>

theorem pay_invoice_answers_from_sending_record:
  "fst (handlePayInvoice (fst (init demo_service
          (demo_runtime (scripted
             [Responded \<lparr> status = 202, bodyText = NotJson [] \<rparr>,
              Responded \<lparr> status = 200,
                          bodyText = Json (record_with ''sending'' (JStr ''lnbc100n1pvjluez'')) \<rparr>])
             undecryptable) []))
        (demo_runtime (scripted
           [Responded \<lparr> status = 202, bodyText = NotJson [] \<rparr>,
            Responded \<lparr> status = 200,
                        bodyText = Json (record_with ''sending'' (JStr ''lnbc100n1pvjluez'')) \<rparr>])
           undecryptable)
        (JObj [(''invoice'', JStr ''lnbc100n1pvjluez'')]) [])
   = Inr (JObj [(''preimage'', JStr ''lnbc100n1pvjluez''), (''fees_paid'', JNum 10000)])
   \<and> gets (snd (handlePayInvoice (fst (init demo_service
          (demo_runtime (scripted
             [Responded \<lparr> status = 202, bodyText = NotJson [] \<rparr>,
              Responded \<lparr> status = 200,
                          bodyText = Json (record_with ''sending'' (JStr ''lnbc100n1pvjluez'')) \<rparr>])
             undecryptable) []))
        (demo_runtime (scripted
           [Responded \<lparr> status = 202, bodyText = NotJson [] \<rparr>,
            Responded \<lparr> status = 200,
                        bodyText = Json (record_with ''sending'' (JStr ''lnbc100n1pvjluez'')) \<rparr>])
           undecryptable)
        (JObj [(''invoice'', JStr ''lnbc100n1pvjluez'')]) [])) = 1
   \<and> status_of (record_with ''sending'' (JStr ''lnbc100n1pvjluez'')) = JStr ''sending''
   \<and> \<not> finished (record_with ''sending'' (JStr ''lnbc100n1pvjluez''))"
  by (simp add: gateway_eval sendPayment_def getPayment_def fetchWithRetry.simps demo_client_simps
        scripted_def trace_simps ok_def json_def data_prop_def record_with_def status_of_def
        finished_def terminal_def)

end
